theory Spec2Isabelle
  imports Complex_Main
begin

section \<open>Numbers\<close>

text \<open>
  Python floats and numpy float64 values are modelled without rounding: a finite value
  is a real number. The three non-finite values of IEEE 754 are kept, because numpy's
  division by zero returns them (with a warning) where Python's own division raises.
  The sign of zero is not modelled: a zero divisor counts as +0.
\<close>

datatype fl = Fin real | PInf | NInf | NaN

datatype py_error =
  KeyError | ValueError | ZeroDivisionError | OverflowError | AttributeError | TypeError

fun fadd :: "fl \<Rightarrow> fl \<Rightarrow> fl" where
  "fadd (Fin a) (Fin b) = Fin (a + b)"
| "fadd NaN _ = NaN"
| "fadd _ NaN = NaN"
| "fadd PInf NInf = NaN"
| "fadd NInf PInf = NaN"
| "fadd PInf _ = PInf"
| "fadd _ PInf = PInf"
| "fadd NInf _ = NInf"
| "fadd _ NInf = NInf"

fun fneg :: "fl \<Rightarrow> fl" where
  "fneg (Fin a) = Fin (- a)"
| "fneg PInf = NInf"
| "fneg NInf = PInf"
| "fneg NaN = NaN"

definition fsub :: "fl \<Rightarrow> fl \<Rightarrow> fl" where
  "fsub a b = fadd a (fneg b)"

fun fabs :: "fl \<Rightarrow> fl" where
  "fabs (Fin a) = Fin \<bar>a\<bar>"
| "fabs PInf = PInf"
| "fabs NInf = PInf"
| "fabs NaN = NaN"

fun fmul :: "fl \<Rightarrow> fl \<Rightarrow> fl" where
  "fmul (Fin a) (Fin b) = Fin (a * b)"
| "fmul NaN _ = NaN"
| "fmul _ NaN = NaN"
| "fmul (Fin a) PInf = (if a = 0 then NaN else if 0 < a then PInf else NInf)"
| "fmul (Fin a) NInf = (if a = 0 then NaN else if 0 < a then NInf else PInf)"
| "fmul PInf (Fin b) = (if b = 0 then NaN else if 0 < b then PInf else NInf)"
| "fmul NInf (Fin b) = (if b = 0 then NaN else if 0 < b then NInf else PInf)"
| "fmul PInf PInf = PInf"
| "fmul NInf NInf = PInf"
| "fmul PInf NInf = NInf"
| "fmul NInf PInf = NInf"

text \<open>numpy's division: a zero divisor gives an infinity or NaN, never an exception.\<close>

fun fdiv :: "fl \<Rightarrow> fl \<Rightarrow> fl" where
  "fdiv (Fin a) (Fin b) =
     (if b = 0 then (if a = 0 then NaN else if 0 < a then PInf else NInf) else Fin (a / b))"
| "fdiv NaN _ = NaN"
| "fdiv _ NaN = NaN"
| "fdiv (Fin a) _ = Fin 0"
| "fdiv PInf (Fin b) = (if 0 \<le> b then PInf else NInf)"
| "fdiv NInf (Fin b) = (if 0 \<le> b then NInf else PInf)"
| "fdiv _ _ = NaN"

text \<open>Python's division of two floats raises on a zero divisor.\<close>

definition py_truediv :: "fl \<Rightarrow> fl \<Rightarrow> py_error + fl" where
  "py_truediv a b = (if b = Fin 0 then Inl ZeroDivisionError else Inr (fdiv a b))"

text \<open>
  \<^verbatim>\<open>int(weight)\<close> truncates towards zero and raises on a non-finite value;
  \<^verbatim>\<open>range(k)\<close> is empty for \<open>k \<le> 0\<close>.
\<close>

definition py_int :: "fl \<Rightarrow> py_error + int" where
  "py_int w =
     (case w of
        Fin r \<Rightarrow> Inr (if 0 \<le> r then \<lfloor>r\<rfloor> else \<lceil>r\<rceil>)
      | NaN \<Rightarrow> Inl ValueError
      | PInf \<Rightarrow> Inl OverflowError
      | NInf \<Rightarrow> Inl OverflowError)"

definition py_range :: "int \<Rightarrow> nat list" where
  "py_range k = [0..<nat k]"

text \<open>Sequencing of statements that may raise: the first exception ends the call.\<close>

definition bnd :: "py_error + 'a \<Rightarrow> ('a \<Rightarrow> py_error + 'b) \<Rightarrow> py_error + 'b" where
  "bnd m f = (case m of Inl e \<Rightarrow> Inl e | Inr v \<Rightarrow> f v)"

text \<open>A \<^verbatim>\<open>for\<close> loop over a list of indices whose body may raise.\<close>

fun for_range :: "nat list \<Rightarrow> ('st \<Rightarrow> py_error + 'st) \<Rightarrow> 'st \<Rightarrow> py_error + 'st" where
  "for_range [] body st = Inr st"
| "for_range (i # is) body st = bnd (body st) (for_range is body)"

section \<open>Arrays\<close>

text \<open>
  A one-dimensional array is the list of its entries. A two-dimensional array keeps its
  number of columns beside its rows, so that an array with no row still has a shape.
\<close>

type_synonym vec = "fl list"

record matrix =
  mat_cols :: nat
  mat_rows :: "vec list"

definition np_sum :: "vec \<Rightarrow> fl" where
  "np_sum xs = foldr fadd xs (Fin 0)"

definition np_abs :: "vec \<Rightarrow> vec" where
  "np_abs xs = map fabs xs"

text \<open>
  An elementwise operation on two one-dimensional arrays, with numpy's broadcasting: the
  shapes agree, or one of them has length one.
\<close>

definition np_binop :: "(fl \<Rightarrow> fl \<Rightarrow> fl) \<Rightarrow> vec \<Rightarrow> vec \<Rightarrow> py_error + vec" where
  "np_binop f xs ys =
     (if length xs = length ys then Inr (map2 f xs ys)
      else if length xs = 1 then Inr (map (f (hd xs)) ys)
      else if length ys = 1 then Inr (map (\<lambda>x. f x (hd ys)) xs)
      else Inl ValueError)"

text \<open>
  The in-place form \<^verbatim>\<open>a += b\<close> keeps the shape of \<open>a\<close>: \<open>b\<close> has the length of
  \<open>a\<close> or length one.
\<close>

definition np_iadd :: "vec \<Rightarrow> vec \<Rightarrow> py_error + vec" where
  "np_iadd xs ys =
     (if length ys = length xs then Inr (map2 fadd xs ys)
      else if length ys = 1 then Inr (map (\<lambda>x. fadd x (hd ys)) xs)
      else Inl ValueError)"

definition bcast_to :: "nat \<Rightarrow> 'a list \<Rightarrow> 'a list" where
  "bcast_to k xs = (if length xs = k then xs else replicate k (hd xs))"

definition np_iadd2 :: "matrix \<Rightarrow> matrix \<Rightarrow> py_error + matrix" where
  "np_iadd2 W D =
     (if (mat_cols D = mat_cols W \<or> mat_cols D = 1)
         \<and> (length (mat_rows D) = length (mat_rows W) \<or> length (mat_rows D) = 1)
      then Inr (W\<lparr>mat_rows :=
                  map2 (map2 fadd) (mat_rows W)
                    (bcast_to (length (mat_rows W)) (map (bcast_to (mat_cols W)) (mat_rows D)))\<rparr>)
      else Inl ValueError)"

text \<open>\<^verbatim>\<open>np.matmul\<close> of a two-dimensional array with a one-dimensional one.\<close>

definition np_dot :: "vec \<Rightarrow> vec \<Rightarrow> fl" where
  "np_dot xs ys = np_sum (map2 fmul xs ys)"

definition np_matmul :: "matrix \<Rightarrow> vec \<Rightarrow> py_error + vec" where
  "np_matmul W x =
     (if mat_cols W = length x then Inr (map (\<lambda>row. np_dot row x) (mat_rows W))
      else Inl ValueError)"

text \<open>
  \<^verbatim>\<open>np.matmul(e[:, None], x[None, :])\<close>: the product of a column and a row, one
  entry \<open>e\<^sub>i * x\<^sub>j\<close> for each pair.
\<close>

definition np_outer :: "vec \<Rightarrow> vec \<Rightarrow> matrix" where
  "np_outer e x = \<lparr>mat_cols = length x, mat_rows = map (\<lambda>ei. map (fmul ei) x) e\<rparr>"

definition scale :: "fl \<Rightarrow> matrix \<Rightarrow> matrix" where
  "scale c D = D\<lparr>mat_rows := map (map (fmul c)) (mat_rows D)\<rparr>"

section \<open>The store of weight matrices\<close>

text \<open>
  A weight matrix is a mutable numpy array, and two nodes may hold the same one. The
  arrays live in a store; a node holds the address of its matrix. Addresses below
  \<open>next_free\<close> are in use.
\<close>

record store =
  cells :: "nat \<Rightarrow> matrix"
  next_free :: nat

definition alloc :: "store \<Rightarrow> matrix \<Rightarrow> store \<times> nat" where
  "alloc s W = (s\<lparr>cells := (cells s)(next_free s := W), next_free := Suc (next_free s)\<rparr>, next_free s)"

definition deepcopy :: "store \<Rightarrow> nat option \<Rightarrow> store \<times> nat option" where
  "deepcopy s r =
     (case r of
        None \<Rightarrow> (s, None)
      | Some a \<Rightarrow> (let (s', a') = alloc s (cells s a) in (s', Some a')))"

section \<open>Collaborators of a node\<close>

text \<open>
  Modelled from the spec: the regressor \<^verbatim>\<open>rht\<close> (class HoeffdingTreeRegressor, not among
  the sources). A node reads its three learning-rate settings and the indices of the
  nominal features, and calls its two normalization functions.
\<close>

record rht =
  learning_ratio_const :: bool
  learning_ratio_perceptron :: fl
  learning_ratio_decay :: fl
  nominal_attributes :: "nat list option"
  normalize_sample :: "vec \<Rightarrow> vec"
  normalize_target_value :: "vec \<Rightarrow> vec"

text \<open>
  Modelled from the spec: the attribute observers (classes
  NominalAttributeRegressionObserver and NumericAttributeRegressionObserver, not among the
  sources). An observer is its kind and the calls of \<^verbatim>\<open>update(x, y, weight)\<close> it has
  received, latest first.
\<close>

datatype observer_kind = NominalAttributeRegressionObserver | NumericAttributeRegressionObserver

record observer =
  obs_kind :: observer_kind
  obs_updates :: "(fl \<times> vec \<times> fl) list"

definition new_observer :: "observer_kind \<Rightarrow> observer" where
  "new_observer k = \<lparr>obs_kind = k, obs_updates = []\<rparr>"

definition observer_update :: "observer \<Rightarrow> fl \<Rightarrow> vec \<Rightarrow> fl \<Rightarrow> observer" where
  "observer_update ob x y weight = ob\<lparr>obs_updates := (x, y, weight) # obs_updates ob\<rparr>"

text \<open>
  The random generator of a node (numpy's RandomState) is the sequence of values its
  draws from the interval between -1 and 1 deliver, and the number of values drawn so far.
  \<^verbatim>\<open>uniform(-1.0, 1.0, (rows, cols))\<close> fills an array row by row.
\<close>

record rng =
  rng_values :: "nat \<Rightarrow> real"
  rng_pos :: nat

definition rng_uniform :: "rng \<Rightarrow> nat \<Rightarrow> nat \<Rightarrow> matrix \<times> rng" where
  "rng_uniform g r c =
     (\<lparr>mat_cols = c,
       mat_rows = map (\<lambda>i. map (\<lambda>j. Fin (rng_values g (rng_pos g + i * c + j))) [0..<c]) [0..<r]\<rparr>,
      g\<lparr>rng_pos := rng_pos g + r * c\<rparr>)"

text \<open>
  Modelled from the spec: \<^verbatim>\<open>get_dimensions\<close> (skmultiflow.utils, not among the sources).
  The instance arrays are one-dimensional; such an array of length \<open>k\<close> has the
  dimensions \<open>(1, k)\<close>, so that the weight matrix has one row per target and one column
  per feature plus one.
\<close>

definition get_dimensions :: "vec \<Rightarrow> nat \<times> nat" where
  "get_dimensions v = (1, length v)"

section \<open>Nodes\<close>

text \<open>
  The dictionary \<^verbatim>\<open>_stats\<close>: key 0 holds the total weight, key 1 the sum of the targets,
  key 2 the sum of their squares. A key that is not in the dictionary is \<open>None\<close>.
\<close>

record stats =
  stats_0 :: "fl option"
  stats_1 :: "vec option"
  stats_2 :: "vec option"

definition empty_stats :: stats where
  "empty_stats = \<lparr>stats_0 = None, stats_1 = None, stats_2 = None\<rparr>"

text \<open>The faded errors start as the Python float 0.0 and become arrays on their first update.\<close>

datatype faded = PyFloat fl | NdArray vec

datatype node_class =
  ActivePerceptronMT | InactivePerceptronMT | ActiveAdaptiveMT | InactiveAdaptiveMT

text \<open>
  One record for the four classes. \<open>perceptron_weight\<close> is \<open>None\<close> or the address of the
  matrix in the store. Only the active classes use \<open>attribute_observers\<close>, only the
  adaptive classes use \<open>fMAE_M\<close> and \<open>fMAE_P\<close>.
\<close>

record node =
  node_class :: node_class
  stats :: stats
  attribute_observers :: "nat \<Rightarrow> observer option"
  perceptron_weight :: "nat option"
  random_state :: rng
  fMAE_M :: faded
  fMAE_P :: faded

subsection \<open>Construction\<close>

text \<open>
  The parent handed to a constructor is any Python object. Of an object, the model keeps
  the attributes whose value is \<open>None\<close> or a matrix: a map from attribute names to such
  values. Reading an attribute the object does not have raises AttributeError.
\<close>

type_synonym py_object = "string \<Rightarrow> nat option option"

definition getattr :: "py_object \<Rightarrow> string \<Rightarrow> py_error + nat option" where
  "getattr obj name = (case obj name of None \<Rightarrow> Inl AttributeError | Some v \<Rightarrow> Inr v)"

text \<open>
  A node seen as an object: the four classes assign the attribute \<^verbatim>\<open>perceptron_weight\<close>;
  \<open>base\<close> stands for whatever attributes of this kind the base classes
  (ActiveLearningNodePerceptron and InactiveLearningNodePerceptron, not among the sources)
  provide.
\<close>

definition node_as_object :: "py_object \<Rightarrow> node \<Rightarrow> py_object" where
  "node_as_object base n = base(''perceptron_weight'' := Some (perceptron_weight n))"

text \<open>
  Modelled from the spec: the base constructor \<^verbatim>\<open>super().__init__(initial_stats)\<close> keeps
  the statistics it is given and starts with no attribute observer;
  \<^verbatim>\<open>check_random_state\<close> returns the generator of the node.
\<close>

definition base_init :: "node_class \<Rightarrow> stats \<Rightarrow> rng \<Rightarrow> node" where
  "base_init cls initial_stats g =
     \<lparr>node_class = cls, stats = initial_stats, attribute_observers = (\<lambda>i. None),
      perceptron_weight = None, random_state = g,
      fMAE_M = PyFloat (Fin 0), fMAE_P = PyFloat (Fin 0)\<rparr>"

definition active_init ::
  "node_class \<Rightarrow> store \<Rightarrow> stats \<Rightarrow> py_object option \<Rightarrow> rng \<Rightarrow> py_error + store \<times> node" where
  "active_init cls s initial_stats parent_node g =
     (let self = base_init cls initial_stats g in
      case parent_node of
        None \<Rightarrow> Inr (s, self\<lparr>perceptron_weight := None\<rparr>)
      | Some p \<Rightarrow>
          bnd (getattr p ''perceptron_weights'') (\<lambda>r.
            let (s', r') = deepcopy s r in Inr (s', self\<lparr>perceptron_weight := r'\<rparr>)))"

definition inactive_init ::
  "node_class \<Rightarrow> store \<Rightarrow> stats \<Rightarrow> py_object option \<Rightarrow> rng \<Rightarrow> py_error + store \<times> node" where
  "inactive_init cls s initial_stats parent_node g =
     (let self = base_init cls initial_stats g in
      case parent_node of
        None \<Rightarrow> Inr (s, self\<lparr>perceptron_weight := None\<rparr>)
      | Some p \<Rightarrow>
          bnd (getattr p ''perceptron_weights'') (\<lambda>r.
            Inr (s, self\<lparr>perceptron_weight := r\<rparr>)))"

definition active_adaptive_init ::
  "store \<Rightarrow> stats \<Rightarrow> py_object option \<Rightarrow> rng \<Rightarrow> py_error + store \<times> node" where
  "active_adaptive_init s initial_stats parent_node g =
     bnd (active_init ActiveAdaptiveMT s initial_stats parent_node g) (\<lambda>(s', self).
       Inr (s', self\<lparr>fMAE_M := PyFloat (Fin 0), fMAE_P := PyFloat (Fin 0)\<rparr>))"

definition inactive_adaptive_init ::
  "store \<Rightarrow> stats \<Rightarrow> py_object option \<Rightarrow> rng \<Rightarrow> py_error + store \<times> node" where
  "inactive_adaptive_init s initial_stats parent_node g =
     bnd (inactive_init InactiveAdaptiveMT s initial_stats parent_node g) (\<lambda>(s', self).
       Inr (s', self\<lparr>fMAE_M := PyFloat (Fin 0), fMAE_P := PyFloat (Fin 0)\<rparr>))"

text \<open>The constructor of each class.\<close>

definition construct ::
  "node_class \<Rightarrow> store \<Rightarrow> stats \<Rightarrow> py_object option \<Rightarrow> rng \<Rightarrow> py_error + store \<times> node" where
  "construct cls s initial_stats parent_node g =
     (case cls of
        ActivePerceptronMT \<Rightarrow> active_init ActivePerceptronMT s initial_stats parent_node g
      | InactivePerceptronMT \<Rightarrow> inactive_init InactivePerceptronMT s initial_stats parent_node g
      | ActiveAdaptiveMT \<Rightarrow> active_adaptive_init s initial_stats parent_node g
      | InactiveAdaptiveMT \<Rightarrow> inactive_adaptive_init s initial_stats parent_node g)"

subsection \<open>Prediction and normalization of the weights\<close>

text \<open>
  \<^verbatim>\<open>np.matmul(self.perceptron_weight, X)\<close>. With \<open>None\<close> in place of the matrix,
  \<^verbatim>\<open>np.matmul\<close> raises ValueError (its operand has no dimension).
\<close>

definition active_predict :: "store \<Rightarrow> node \<Rightarrow> vec \<Rightarrow> py_error + vec" where
  "active_predict s self X =
     (case perceptron_weight self of
        None \<Rightarrow> Inl ValueError
      | Some a \<Rightarrow> np_matmul (cells s a) X)"

definition inactive_predict :: "store \<Rightarrow> node \<Rightarrow> vec \<Rightarrow> py_error + vec" where
  "inactive_predict s self X =
     (case perceptron_weight self of
        None \<Rightarrow> Inl ValueError
      | Some a \<Rightarrow> np_matmul (cells s a) X)"

text \<open>
  The loop of \<^verbatim>\<open>normalize_perceptron_weights\<close>: each row in turn is divided, in place, by
  the sum of the absolute values of its entries. On \<open>None\<close>, reading \<^verbatim>\<open>.shape\<close> raises
  AttributeError.
\<close>

fun active_normalize_rows :: "nat list \<Rightarrow> vec list \<Rightarrow> vec list" where
  "active_normalize_rows [] W = W"
| "active_normalize_rows (i # is) W =
     (let sum_w = np_sum (np_abs (W ! i))
      in active_normalize_rows is (W[i := map (\<lambda>v. fdiv v sum_w) (W ! i)]))"

definition active_normalize_perceptron_weights :: "store \<Rightarrow> node \<Rightarrow> py_error + store" where
  "active_normalize_perceptron_weights s self =
     (case perceptron_weight self of
        None \<Rightarrow> Inl AttributeError
      | Some a \<Rightarrow>
          (let W = cells s a; n_targets = length (mat_rows W)
           in Inr (s\<lparr>cells := (cells s)
                     (a := W\<lparr>mat_rows := active_normalize_rows [0..<n_targets] (mat_rows W)\<rparr>)\<rparr>)))"

fun inactive_normalize_rows :: "nat list \<Rightarrow> vec list \<Rightarrow> vec list" where
  "inactive_normalize_rows [] W = W"
| "inactive_normalize_rows (i # is) W =
     (let sum_w = np_sum (np_abs (W ! i))
      in inactive_normalize_rows is (W[i := map (\<lambda>v. fdiv v sum_w) (W ! i)]))"

definition inactive_normalize_perceptron_weights :: "store \<Rightarrow> node \<Rightarrow> py_error + store" where
  "inactive_normalize_perceptron_weights s self =
     (case perceptron_weight self of
        None \<Rightarrow> Inl AttributeError
      | Some a \<Rightarrow>
          (let W = cells s a; n_targets = length (mat_rows W)
           in Inr (s\<lparr>cells := (cells s)
                     (a := W\<lparr>mat_rows := inactive_normalize_rows [0..<n_targets] (mat_rows W)\<rparr>)\<rparr>)))"

subsection \<open>One gradient step\<close>

text \<open>
  \<^verbatim>\<open>self.perceptron_weight += D\<close> changes the matrix in place: the node keeps its
  address and the store gets the sum. (Adding an array to \<open>None\<close> raises TypeError.)
\<close>

definition iadd_weights :: "store \<Rightarrow> node \<Rightarrow> matrix \<Rightarrow> py_error + store" where
  "iadd_weights s self D =
     (case perceptron_weight self of
        None \<Rightarrow> Inl TypeError
      | Some a \<Rightarrow> bnd (np_iadd2 (cells s a) D) (\<lambda>W'. Inr (s\<lparr>cells := (cells s)(a := W')\<rparr>)))"

definition active_update_weights ::
  "store \<Rightarrow> node \<Rightarrow> vec \<Rightarrow> vec \<Rightarrow> fl \<Rightarrow> rht \<Rightarrow> py_error + store \<times> node" where
  "active_update_weights s self X y learning_ratio rht =
     (let normalized_sample = normalize_sample rht X in
      bnd (active_predict s self normalized_sample) (\<lambda>normalized_pred.
      let normalized_target_value = normalize_target_value rht y in
      bnd (np_binop fsub normalized_target_value normalized_pred) (\<lambda>err.
      bnd (iadd_weights s self (scale learning_ratio (np_outer err normalized_sample))) (\<lambda>s1.
      bnd (active_normalize_perceptron_weights s1 self) (\<lambda>s2.
      Inr (s2, self))))))"

definition inactive_update_weights ::
  "store \<Rightarrow> node \<Rightarrow> vec \<Rightarrow> vec \<Rightarrow> fl \<Rightarrow> rht \<Rightarrow> py_error + store \<times> node" where
  "inactive_update_weights s self X y learning_ratio rht =
     (let normalized_sample = normalize_sample rht X in
      bnd (inactive_predict s self normalized_sample) (\<lambda>normalized_pred.
      let normalized_target_value = normalize_target_value rht y in
      bnd (np_binop fsub normalized_target_value normalized_pred) (\<lambda>err.
      bnd (iadd_weights s self (scale learning_ratio (np_outer err normalized_sample))) (\<lambda>s1.
      bnd (inactive_normalize_perceptron_weights s1 self) (\<lambda>s2.
      Inr (s2, self))))))"

text \<open>\<^verbatim>\<open>0.95 * f + e\<close>, for a faded error \<open>f\<close> and an array \<open>e\<close> of absolute errors.\<close>

definition fade :: "faded \<Rightarrow> vec \<Rightarrow> py_error + faded" where
  "fade f e =
     (case f of
        PyFloat c \<Rightarrow> Inr (NdArray (map (fadd (fmul (Fin 0.95) c)) e))
      | NdArray v \<Rightarrow> bnd (np_binop fadd (map (fmul (Fin 0.95)) v) e) (\<lambda>r. Inr (NdArray r)))"

text \<open>\<^verbatim>\<open>self._stats[1] / self._stats[0]\<close>: an array divided by a float, as numpy divides.\<close>

definition stats_mean :: "stats \<Rightarrow> py_error + vec" where
  "stats_mean st =
     (case stats_1 st of
        None \<Rightarrow> Inl KeyError
      | Some s1 \<Rightarrow>
          (case stats_0 st of
             None \<Rightarrow> Inl KeyError
           | Some c \<Rightarrow> Inr (map (\<lambda>v. fdiv v c) s1)))"

definition active_adaptive_update_weights ::
  "store \<Rightarrow> node \<Rightarrow> vec \<Rightarrow> vec \<Rightarrow> fl \<Rightarrow> rht \<Rightarrow> py_error + store \<times> node" where
  "active_adaptive_update_weights s self X y learning_ratio rht =
     (let normalized_sample = normalize_sample rht X in
      bnd (active_predict s self normalized_sample) (\<lambda>normalized_pred.
      let normalized_target_value = normalize_target_value rht y in
      bnd (np_binop fsub normalized_target_value normalized_pred) (\<lambda>err.
      bnd (iadd_weights s self (scale learning_ratio (np_outer err normalized_sample))) (\<lambda>s1.
      bnd (active_normalize_perceptron_weights s1 self) (\<lambda>s2.
      bnd (fade (fMAE_P self) (np_abs err)) (\<lambda>fP.
      let self1 = self\<lparr>fMAE_P := fP\<rparr> in
      bnd (stats_mean (stats self1)) (\<lambda>mean.
      bnd (np_binop fsub normalized_target_value (normalize_target_value rht mean)) (\<lambda>errM.
      bnd (fade (fMAE_M self1) (np_abs errM)) (\<lambda>fM.
      Inr (s2, self1\<lparr>fMAE_M := fM\<rparr>))))))))))"

definition inactive_adaptive_update_weights ::
  "store \<Rightarrow> node \<Rightarrow> vec \<Rightarrow> vec \<Rightarrow> fl \<Rightarrow> rht \<Rightarrow> py_error + store \<times> node" where
  "inactive_adaptive_update_weights s self X y learning_ratio rht =
     (let normalized_sample = normalize_sample rht X in
      bnd (inactive_predict s self normalized_sample) (\<lambda>normalized_pred.
      let normalized_target_value = normalize_target_value rht y in
      bnd (np_binop fsub normalized_target_value normalized_pred) (\<lambda>err.
      bnd (iadd_weights s self (scale learning_ratio (np_outer err normalized_sample))) (\<lambda>s1.
      bnd (inactive_normalize_perceptron_weights s1 self) (\<lambda>s2.
      bnd (fade (fMAE_P self) (np_abs err)) (\<lambda>fP.
      let self1 = self\<lparr>fMAE_P := fP\<rparr> in
      bnd (stats_mean (stats self1)) (\<lambda>mean.
      bnd (np_binop fsub normalized_target_value (normalize_target_value rht mean)) (\<lambda>errM.
      bnd (fade (fMAE_M self1) (np_abs errM)) (\<lambda>fM.
      Inr (s2, self1\<lparr>fMAE_M := fM\<rparr>))))))))))"

text \<open>\<^verbatim>\<open>self.update_weights(...)\<close>: the method of the class of the node.\<close>

definition update_weights ::
  "store \<Rightarrow> node \<Rightarrow> vec \<Rightarrow> vec \<Rightarrow> fl \<Rightarrow> rht \<Rightarrow> py_error + store \<times> node" where
  "update_weights s self X y learning_ratio rht =
     (case node_class self of
        ActivePerceptronMT \<Rightarrow> active_update_weights s self X y learning_ratio rht
      | InactivePerceptronMT \<Rightarrow> inactive_update_weights s self X y learning_ratio rht
      | ActiveAdaptiveMT \<Rightarrow> active_adaptive_update_weights s self X y learning_ratio rht
      | InactiveAdaptiveMT \<Rightarrow> inactive_adaptive_update_weights s self X y learning_ratio rht)"

subsection \<open>Learning from an instance\<close>

text \<open>
  The first call creates the matrix: one row per target, one column per feature and one
  more, drawn from the generator of the node and normalized.
\<close>

definition active_create_weights :: "store \<Rightarrow> node \<Rightarrow> vec \<Rightarrow> vec \<Rightarrow> py_error + store \<times> node" where
  "active_create_weights s self X y =
     (if perceptron_weight self = None then
        (let (_, rows) = get_dimensions y;
             (_, cols) = get_dimensions X;
             (W, g) = rng_uniform (random_state self) rows (cols + 1);
             (s1, a) = alloc s W;
             self1 = self\<lparr>perceptron_weight := Some a, random_state := g\<rparr>
         in bnd (active_normalize_perceptron_weights s1 self1) (\<lambda>s2. Inr (s2, self1)))
      else Inr (s, self))"

definition inactive_create_weights :: "store \<Rightarrow> node \<Rightarrow> vec \<Rightarrow> vec \<Rightarrow> py_error + store \<times> node" where
  "inactive_create_weights s self X y =
     (if perceptron_weight self = None then
        (let (_, rows) = get_dimensions y;
             (_, cols) = get_dimensions X;
             (W, g) = rng_uniform (random_state self) rows (cols + 1);
             (s1, a) = alloc s W;
             self1 = self\<lparr>perceptron_weight := Some a, random_state := g\<rparr>
         in bnd (inactive_normalize_perceptron_weights s1 self1) (\<lambda>s2. Inr (s2, self1)))
      else Inr (s, self))"

text \<open>
  \<^verbatim>\<open>self._stats[0] += weight\<close>, or \<^verbatim>\<open>self._stats[0] = weight\<close> when the key is
  missing.
\<close>

definition add_weight :: "stats \<Rightarrow> fl \<Rightarrow> stats" where
  "add_weight st weight =
     (case stats_0 st of
        Some c \<Rightarrow> st\<lparr>stats_0 := Some (fadd c weight)\<rparr>
      | None \<Rightarrow> st\<lparr>stats_0 := Some weight\<rparr>)"

text \<open>
  The learning rate, read from the regressor and from \<^verbatim>\<open>self._stats[0]\<close>. The weight
  of an instance and the settings of the regressor are Python floats, as the docstrings
  say, so the division is Python's and raises on a zero divisor.
\<close>

definition learning_ratio :: "rht \<Rightarrow> stats \<Rightarrow> py_error + fl" where
  "learning_ratio rht st =
     (if learning_ratio_const rht then Inr (learning_ratio_perceptron rht)
      else
        (case stats_0 st of
           None \<Rightarrow> Inl KeyError
         | Some c \<Rightarrow>
             py_truediv (learning_ratio_perceptron rht)
               (fadd (Fin 1) (fmul c (learning_ratio_decay rht)))))"

text \<open>
  The sums of the targets and of their squares. A missing key at either of the two
  additions makes the handler assign both sums afresh.
\<close>

definition add_targets :: "stats \<Rightarrow> vec \<Rightarrow> fl \<Rightarrow> py_error + stats" where
  "add_targets st y weight =
     (let wy = map (fmul weight) y;
          wyy = map2 fmul wy y;
          fresh = st\<lparr>stats_1 := Some wy, stats_2 := Some wyy\<rparr>
      in case stats_1 st of
           None \<Rightarrow> Inr fresh
         | Some a \<Rightarrow>
             bnd (np_iadd a wy) (\<lambda>a'.
               case stats_2 st of
                 None \<Rightarrow> Inr fresh
               | Some b \<Rightarrow>
                   bnd (np_iadd b wyy) (\<lambda>b'.
                     Inr (st\<lparr>stats_1 := Some a', stats_2 := Some b'\<rparr>))))"

text \<open>
  The loop over \<^verbatim>\<open>enumerate(X.tolist())\<close>: the observer of feature \<open>i\<close> is created when
  it is missing, nominal when \<open>i\<close> is among the nominal attributes, and then updated.
\<close>

fun update_observers ::
  "rht \<Rightarrow> vec \<Rightarrow> fl \<Rightarrow> nat \<Rightarrow> vec \<Rightarrow> (nat \<Rightarrow> observer option) \<Rightarrow> (nat \<Rightarrow> observer option)" where
  "update_observers rht y weight i [] obs = obs"
| "update_observers rht y weight i (x # xs) obs =
     (let ob =
        (case obs i of
           Some ob \<Rightarrow> ob
         | None \<Rightarrow>
             (if (case nominal_attributes rht of None \<Rightarrow> False | Some ns \<Rightarrow> i \<in> set ns)
              then new_observer NominalAttributeRegressionObserver
              else new_observer NumericAttributeRegressionObserver))
      in update_observers rht y weight (Suc i) xs (obs(i := Some (observer_update ob x y weight))))"

definition active_learn_from_instance ::
  "store \<Rightarrow> node \<Rightarrow> vec \<Rightarrow> vec \<Rightarrow> fl \<Rightarrow> rht \<Rightarrow> py_error + store \<times> node" where
  "active_learn_from_instance s self X y weight rht =
     bnd (active_create_weights s self X y) (\<lambda>(s0, self0).
     let self1 = self0\<lparr>stats := add_weight (stats self0) weight\<rparr> in
     bnd (learning_ratio rht (stats self1)) (\<lambda>lr.
     bnd (add_targets (stats self1) y weight) (\<lambda>st.
     let self2 = self1\<lparr>stats := st\<rparr> in
     bnd (py_int weight) (\<lambda>k.
     bnd (for_range (py_range k) (\<lambda>(s', self'). update_weights s' self' X y lr rht) (s0, self2))
       (\<lambda>(s3, self3).
     Inr (s3, self3\<lparr>attribute_observers :=
                      update_observers rht y weight 0 X (attribute_observers self3)\<rparr>))))))"

definition inactive_learn_from_instance ::
  "store \<Rightarrow> node \<Rightarrow> vec \<Rightarrow> vec \<Rightarrow> fl \<Rightarrow> rht \<Rightarrow> py_error + store \<times> node" where
  "inactive_learn_from_instance s self X y weight rht =
     bnd (inactive_create_weights s self X y) (\<lambda>(s0, self0).
     let self1 = self0\<lparr>stats := add_weight (stats self0) weight\<rparr> in
     bnd (learning_ratio rht (stats self1)) (\<lambda>lr.
     bnd (add_targets (stats self1) y weight) (\<lambda>st.
     let self2 = self1\<lparr>stats := st\<rparr> in
     bnd (py_int weight) (\<lambda>k.
     for_range (py_range k) (\<lambda>(s', self'). update_weights s' self' X y lr rht) (s0, self2)))))"

text \<open>\<^verbatim>\<open>node.learn_from_instance(X, y, weight, rht)\<close>: the method of the class of the node.\<close>

definition learn_from_instance ::
  "store \<Rightarrow> node \<Rightarrow> vec \<Rightarrow> vec \<Rightarrow> fl \<Rightarrow> rht \<Rightarrow> py_error + store \<times> node" where
  "learn_from_instance s self X y weight rht =
     (case node_class self of
        ActivePerceptronMT \<Rightarrow> active_learn_from_instance s self X y weight rht
      | ActiveAdaptiveMT \<Rightarrow> active_learn_from_instance s self X y weight rht
      | InactivePerceptronMT \<Rightarrow> inactive_learn_from_instance s self X y weight rht
      | InactiveAdaptiveMT \<Rightarrow> inactive_learn_from_instance s self X y weight rht)"

definition total_weight :: "node \<Rightarrow> py_error + fl" where
  "total_weight self =
     (if stats self = empty_stats then Inr (Fin 0)
      else (case stats_0 (stats self) of None \<Rightarrow> Inl KeyError | Some c \<Rightarrow> Inr c))"

text \<open>A stream of instances, each with the regressor as it is when the instance arrives.\<close>

type_synonym observation = "vec \<times> vec \<times> fl \<times> rht"

fun learn_all :: "store \<Rightarrow> node \<Rightarrow> observation list \<Rightarrow> py_error + store \<times> node" where
  "learn_all s self [] = Inr (s, self)"
| "learn_all s self ((X, y, weight, rht) # rest) =
     bnd (learn_from_instance s self X y weight rht) (\<lambda>(s', self'). learn_all s' self' rest)"

section \<open>Notions used in the statements\<close>

text \<open>
  A row divided by the sum of the absolute values of its entries, as the loop of
  \<^verbatim>\<open>normalize_perceptron_weights\<close> divides it, whatever the sum is.
\<close>

definition divide_row :: "vec \<Rightarrow> vec" where
  "divide_row row = map (\<lambda>v. fdiv v (np_sum (np_abs row))) row"

text \<open>The methods \<^verbatim>\<open>predict\<close> and \<^verbatim>\<open>normalize_perceptron_weights\<close> of the class of a node.\<close>

definition predict :: "store \<Rightarrow> node \<Rightarrow> vec \<Rightarrow> py_error + vec" where
  "predict s self X =
     (case node_class self of
        ActivePerceptronMT \<Rightarrow> active_predict s self X
      | ActiveAdaptiveMT \<Rightarrow> active_predict s self X
      | InactivePerceptronMT \<Rightarrow> inactive_predict s self X
      | InactiveAdaptiveMT \<Rightarrow> inactive_predict s self X)"

definition normalize_perceptron_weights :: "store \<Rightarrow> node \<Rightarrow> py_error + store" where
  "normalize_perceptron_weights s self =
     (case node_class self of
        ActivePerceptronMT \<Rightarrow> active_normalize_perceptron_weights s self
      | ActiveAdaptiveMT \<Rightarrow> active_normalize_perceptron_weights s self
      | InactivePerceptronMT \<Rightarrow> inactive_normalize_perceptron_weights s self
      | InactiveAdaptiveMT \<Rightarrow> inactive_normalize_perceptron_weights s self)"

text \<open>The first statements of \<^verbatim>\<open>learn_from_instance\<close>, which create the weights.\<close>

definition create_weights :: "store \<Rightarrow> node \<Rightarrow> vec \<Rightarrow> vec \<Rightarrow> py_error + store \<times> node" where
  "create_weights s self X y =
     (case node_class self of
        ActivePerceptronMT \<Rightarrow> active_create_weights s self X y
      | ActiveAdaptiveMT \<Rightarrow> active_create_weights s self X y
      | InactivePerceptronMT \<Rightarrow> inactive_create_weights s self X y
      | InactiveAdaptiveMT \<Rightarrow> inactive_create_weights s self X y)"

text \<open>
  The last statements of \<^verbatim>\<open>learn_from_instance\<close>: a node of an active class updates its
  attribute observers, a node of an inactive class has nothing left to do.
\<close>

definition finish_learning ::
  "node_class \<Rightarrow> rht \<Rightarrow> vec \<Rightarrow> vec \<Rightarrow> fl \<Rightarrow> store \<times> node \<Rightarrow> py_error + store \<times> node" where
  "finish_learning cls rht X y weight r =
     (case r of (s, self) \<Rightarrow>
        (case cls of
           ActivePerceptronMT \<Rightarrow>
             Inr (s, self\<lparr>attribute_observers :=
                          update_observers rht y weight 0 X (attribute_observers self)\<rparr>)
         | ActiveAdaptiveMT \<Rightarrow>
             Inr (s, self\<lparr>attribute_observers :=
                          update_observers rht y weight 0 X (attribute_observers self)\<rparr>)
         | InactivePerceptronMT \<Rightarrow> Inr (s, self)
         | InactiveAdaptiveMT \<Rightarrow> Inr (s, self)))"

text \<open>A step that may raise, taken \<open>k\<close> times in a row from a state.\<close>

primrec repeat_steps :: "nat \<Rightarrow> ('st \<Rightarrow> py_error + 'st) \<Rightarrow> 'st \<Rightarrow> py_error + 'st" where
  "repeat_steps 0 step st = Inr st"
| "repeat_steps (Suc k) step st = bnd (step st) (repeat_steps k step)"

text \<open>
  The rows of \<open>W\<close> are normalized from the rows of \<open>raw\<close>: wherever the absolute values of a
  row of \<open>raw\<close> sum to a number other than zero, those of the row of \<open>W\<close> sum to one.
\<close>

definition is_nonzero_number :: "fl \<Rightarrow> bool" where
  "is_nonzero_number v = (case v of Fin c \<Rightarrow> c \<noteq> 0 | PInf \<Rightarrow> False | NInf \<Rightarrow> False | NaN \<Rightarrow> False)"

definition rows_normalized_from :: "vec list \<Rightarrow> vec list \<Rightarrow> bool" where
  "rows_normalized_from raw W \<longleftrightarrow>
     list_all2 (\<lambda>r w. is_nonzero_number (np_sum (np_abs r)) \<longrightarrow> np_sum (np_abs w) = Fin 1) raw W"

text \<open>The rows of the matrix at an address after a call, or the exception of the call.\<close>

definition rows_after :: "py_error + store \<Rightarrow> nat \<Rightarrow> py_error + vec list" where
  "rows_after r a = (case r of Inl e \<Rightarrow> Inl e | Inr s \<Rightarrow> Inr (mat_rows (cells s a)))"

text \<open>The rows of the weight matrix of the node after a call, or the exception of the call.\<close>

definition weights_of :: "py_error + store \<times> node \<Rightarrow> py_error + vec list" where
  "weights_of r =
     (case r of
        Inl e \<Rightarrow> Inl e
      | Inr (s, self) \<Rightarrow>
          (case perceptron_weight self of
             None \<Rightarrow> Inr []
           | Some a \<Rightarrow> Inr (mat_rows (cells s a))))"

text \<open>The faded error of the perceptron after a call, or the exception of the call.\<close>

definition fMAE_P_after :: "py_error + store \<times> node \<Rightarrow> py_error + faded" where
  "fMAE_P_after r = (case r of Inl e \<Rightarrow> Inl e | Inr (s, self) \<Rightarrow> Inr (fMAE_P self))"

section \<open>Active and inactive nodes side by side\<close>

definition is_inactive :: "node_class \<Rightarrow> bool" where
  "is_inactive cls = (cls = InactivePerceptronMT \<or> cls = InactiveAdaptiveMT)"

text \<open>The active class with the same predictor.\<close>

definition activate :: "node_class \<Rightarrow> node_class" where
  "activate cls =
     (case cls of
        ActivePerceptronMT \<Rightarrow> ActivePerceptronMT
      | InactivePerceptronMT \<Rightarrow> ActivePerceptronMT
      | ActiveAdaptiveMT \<Rightarrow> ActiveAdaptiveMT
      | InactiveAdaptiveMT \<Rightarrow> ActiveAdaptiveMT)"

text \<open>
  What a call leaves apart from the class of the node and its attribute observers: the
  store with the weight matrices, the statistics, the reference to the weights, the
  generator and the two faded errors; or the exception of the call.
\<close>

definition predictor_state ::
  "py_error + store \<times> node \<Rightarrow> py_error + store \<times> stats \<times> nat option \<times> rng \<times> faded \<times> faded" where
  "predictor_state r =
     (case r of
        Inl e \<Rightarrow> Inl e
      | Inr (s, self) \<Rightarrow>
          Inr (s, stats self, perceptron_weight self, random_state self, fMAE_M self, fMAE_P self))"

section \<open>Faded errors over a run of instances\<close>

definition is_adaptive :: "node_class \<Rightarrow> bool" where
  "is_adaptive cls = (cls = ActiveAdaptiveMT \<or> cls = InactiveAdaptiveMT)"

definition is_fin :: "fl \<Rightarrow> bool" where
  "is_fin v = (case v of Fin r \<Rightarrow> True | PInf \<Rightarrow> False | NInf \<Rightarrow> False | NaN \<Rightarrow> False)"

text \<open>The faded error of target \<open>i\<close>: the float itself as long as no array has replaced it.\<close>

definition faded_at :: "faded \<Rightarrow> nat \<Rightarrow> fl" where
  "faded_at f i = (case f of PyFloat c \<Rightarrow> c | NdArray v \<Rightarrow> v ! i)"

text \<open>A faded error for \<open>k\<close> targets: the float it starts as, or an array of \<open>k\<close> entries.\<close>

definition faded_for :: "nat \<Rightarrow> faded \<Rightarrow> bool" where
  "faded_for k f = (case f of PyFloat c \<Rightarrow> True | NdArray v \<Rightarrow> length v = k)"

text \<open>
  A run of instances of weight one with \<open>k\<close> targets, on each of which the prediction of
  the node, made with the weights it has when the gradient step begins, is exactly the
  normalized target, a vector of finite numbers; and no call raises.
\<close>

fun exact_run :: "nat \<Rightarrow> store \<Rightarrow> node \<Rightarrow> observation list \<Rightarrow> bool" where
  "exact_run k s self [] = True"
| "exact_run k s self ((X, y, weight, rht) # rest) =
     (weight = Fin 1
      \<and> length (normalize_target_value rht y) = k
      \<and> list_all is_fin (normalize_target_value rht y)
      \<and> (case create_weights s self X y of
            Inl e \<Rightarrow> False
          | Inr (s0, self0) \<Rightarrow>
              predict s0 self0 (normalize_sample rht X) = Inr (normalize_target_value rht y))
      \<and> (case learn_from_instance s self X y weight rht of
            Inl e \<Rightarrow> False
          | Inr (s', self') \<Rightarrow> exact_run k s' self' rest))"

text \<open>
  The predictions a node makes in \<open>k\<close> successive gradient steps, each made with the
  weights the node has when the step begins.
\<close>

fun step_predictions :: "nat \<Rightarrow> store \<Rightarrow> node \<Rightarrow> vec \<Rightarrow> vec \<Rightarrow> fl \<Rightarrow> rht \<Rightarrow> vec list" where
  "step_predictions 0 s self X y lr rht = []"
| "step_predictions (Suc k) s self X y lr rht =
     (case predict s self (normalize_sample rht X) of
        Inl e \<Rightarrow> []
      | Inr p \<Rightarrow>
          p # (case update_weights s self X y lr rht of
                 Inl e \<Rightarrow> []
               | Inr (s', self') \<Rightarrow> step_predictions k s' self' X y lr rht))"

text \<open>
  The predictions made in the gradient steps of one call of \<^verbatim>\<open>learn_from_instance\<close>:
  those of \<^verbatim>\<open>int(weight)\<close> steps from the state in which the loop begins, with the
  learning rate of the call.
\<close>

definition call_predictions :: "store \<Rightarrow> node \<Rightarrow> vec \<Rightarrow> vec \<Rightarrow> fl \<Rightarrow> rht \<Rightarrow> vec list" where
  "call_predictions s self X y weight rht =
     (case create_weights s self X y of
        Inl e \<Rightarrow> []
      | Inr (s0, self0) \<Rightarrow>
          (case learning_ratio rht (add_weight (stats self0) weight) of
             Inl e \<Rightarrow> []
           | Inr lr \<Rightarrow>
               (case add_targets (add_weight (stats self0) weight) y weight of
                  Inl e \<Rightarrow> []
                | Inr st \<Rightarrow>
                    (case py_int weight of
                       Inl e \<Rightarrow> []
                     | Inr k \<Rightarrow>
                         step_predictions (nat k) s0 (self0\<lparr>stats := st\<rparr>) X y lr rht))))"

section \<open>Inputs of the examples\<close>

text \<open>A store with one matrix in use, at address 0.\<close>

definition single_store :: "matrix \<Rightarrow> store" where
  "single_store W = \<lparr>cells = (\<lambda>a. W), next_free = 1\<rparr>"

definition example_rng :: rng where
  "example_rng = \<lparr>rng_values = (\<lambda>k. 1 / 2), rng_pos = 0\<rparr>"

text \<open>A node of a class with no statistics yet, holding the given reference to its weights.\<close>

definition node_at :: "node_class \<Rightarrow> nat option \<Rightarrow> node" where
  "node_at cls r = (base_init cls empty_stats example_rng)\<lparr>perceptron_weight := r\<rparr>"

text \<open>
  A regressor with a constant learning rate of one tenth, whose normalization of a
  sample only appends the bias 1 and whose normalization of the targets changes nothing.
\<close>

definition example_rht :: rht where
  "example_rht =
     \<lparr>learning_ratio_const = True, learning_ratio_perceptron = Fin (1 / 10),
      learning_ratio_decay = Fin (1 / 1000), nominal_attributes = None,
      normalize_sample = (\<lambda>X. X @ [Fin 1]), normalize_target_value = (\<lambda>y. y)\<rparr>"

text \<open>The same regressor with a decaying learning rate.\<close>

definition decaying_rht :: rht where
  "decaying_rht = example_rht\<lparr>learning_ratio_const := False\<rparr>"

text \<open>
  An adaptive node whose weight matrix, at address 0, is the single entry 1: with no
  feature, the normalized sample is the bias alone and the prediction is 1.
\<close>

definition unit_store :: store where
  "unit_store = single_store \<lparr>mat_cols = 1, mat_rows = [[Fin 1]]\<rparr>"

definition unit_node :: node where
  "unit_node = node_at ActiveAdaptiveMT (Some 0)"

text \<open>
  An object of some other class whose attribute \<^verbatim>\<open>perceptron_weights\<close> holds the matrix at an
  address.
\<close>

definition parent_with_weights :: "nat \<Rightarrow> py_object" where
  "parent_with_weights a = (\<lambda>name. None)(''perceptron_weights'' := Some (Some a))"

text \<open>
  A child of a class is constructed from a parent and then learns from one instance: the
  rows of the matrix at the address \<open>a\<close> afterwards, and the reference the child holds.
\<close>

definition child_learns ::
  "node_class \<Rightarrow> store \<Rightarrow> py_object \<Rightarrow> vec \<Rightarrow> vec \<Rightarrow> fl \<Rightarrow> rht \<Rightarrow> nat
     \<Rightarrow> py_error + vec list \<times> nat option" where
  "child_learns cls s parent X y weight rht a =
     bnd (construct cls s empty_stats (Some parent) example_rng) (\<lambda>(s1, child).
     bnd (learn_from_instance s1 child X y weight rht) (\<lambda>(s2, child').
     Inr (mat_rows (cells s2 a), perceptron_weight child')))"

section \<open>Auxiliary facts\<close>

lemma bnd_Inl [simp]: "bnd (Inl e) f = Inl e"
  by (simp add: bnd_def)

lemma bnd_Inr [simp]: "bnd (Inr v) f = f v"
  by (simp add: bnd_def)

lemma bnd_eq_Inr: "bnd m f = Inr r \<longleftrightarrow> (\<exists>v. m = Inr v \<and> f v = Inr r)"
  by (cases m) simp_all

lemma active_normalize_rows_length [simp]:
  "length (active_normalize_rows js W) = length W"
  by (induction js arbitrary: W) (simp_all add: Let_def)

lemma active_normalize_rows_nth:
  "distinct js \<Longrightarrow> j < length W \<Longrightarrow>
   active_normalize_rows js W ! j = (if j \<in> set js then divide_row (W ! j) else W ! j)"
proof (induction js arbitrary: W)
  case Nil
  then show ?case by simp
next
  case (Cons i js)
  let ?W = "W[i := map (\<lambda>v. fdiv v (np_sum (np_abs (W ! i)))) (W ! i)]"
  have "active_normalize_rows (i # js) W ! j = active_normalize_rows js ?W ! j"
    by (simp add: Let_def)
  also have "\<dots> = (if j \<in> set js then divide_row (?W ! j) else ?W ! j)"
    using Cons.IH [of ?W] Cons.prems by simp
  also have "\<dots> = (if j \<in> set (i # js) then divide_row (W ! j) else W ! j)"
    using Cons.prems by (cases "j = i") (auto simp: divide_row_def)
  finally show ?case .
qed

lemma active_normalize_rows_all:
  "active_normalize_rows [0..<length W] W = map divide_row W"
  by (rule nth_equalityI) (simp_all add: active_normalize_rows_nth)

lemma inactive_normalize_rows_eq: "inactive_normalize_rows js W = active_normalize_rows js W"
  by (induction js arbitrary: W) (simp_all add: Let_def)

lemma inactive_normalize_eq [simp]:
  "inactive_normalize_perceptron_weights s self = active_normalize_perceptron_weights s self"
  unfolding inactive_normalize_perceptron_weights_def active_normalize_perceptron_weights_def
    inactive_normalize_rows_eq by (rule refl)

lemma inactive_predict_eq [simp]: "inactive_predict s self X = active_predict s self X"
  unfolding inactive_predict_def active_predict_def by (rule refl)

lemma inactive_update_weights_eq [simp]:
  "inactive_update_weights s self X y lr rht = active_update_weights s self X y lr rht"
  unfolding inactive_update_weights_def active_update_weights_def inactive_predict_eq
    inactive_normalize_eq by (rule refl)

lemma inactive_adaptive_update_weights_eq [simp]:
  "inactive_adaptive_update_weights s self X y lr rht =
   active_adaptive_update_weights s self X y lr rht"
  unfolding inactive_adaptive_update_weights_def active_adaptive_update_weights_def
    inactive_predict_eq inactive_normalize_eq by (rule refl)

lemma inactive_create_weights_eq [simp]:
  "inactive_create_weights s self X y = active_create_weights s self X y"
  unfolding inactive_create_weights_def active_create_weights_def inactive_normalize_eq
  by (rule refl)

lemma np_sum_Nil [simp]: "np_sum [] = Fin 0"
  by (simp add: np_sum_def)

lemma np_sum_Cons [simp]: "np_sum (x # xs) = fadd x (np_sum xs)"
  by (simp add: np_sum_def)

lemma fadd_eq_Fin: "fadd x y = Fin c \<Longrightarrow> \<exists>a b. x = Fin a \<and> y = Fin b \<and> c = a + b"
  by (cases x; cases y) simp_all

lemma np_sum_Fin_all: "np_sum xs = Fin c \<Longrightarrow> \<exists>rs. xs = map Fin rs \<and> c = sum_list rs"
proof (induction xs arbitrary: c)
  case Nil
  then show ?case by simp
next
  case (Cons x xs)
  from Cons.prems obtain a b where ab: "x = Fin a" "np_sum xs = Fin b" "c = a + b"
    using fadd_eq_Fin by fastforce
  from Cons.IH [OF ab(2)] obtain rs where "xs = map Fin rs" "b = sum_list rs" by blast
  with ab have "x # xs = map Fin (a # rs) \<and> c = sum_list (a # rs)" by simp
  then show ?case by (rule exI)
qed

lemma np_sum_map_Fin [simp]: "np_sum (map Fin rs) = Fin (sum_list rs)"
  by (induction rs) simp_all

lemma np_sum_abs_Fin [simp]: "np_sum (np_abs (map Fin rs)) = Fin (sum_list (map abs rs))"
  by (induction rs) (simp_all add: np_abs_def)

lemma fabs_eq_Fin: "fabs x = Fin c \<Longrightarrow> \<exists>a. x = Fin a \<and> c = \<bar>a\<bar>"
  by (cases x) simp_all

lemma np_abs_eq_map_Fin: "np_abs xs = map Fin cs \<Longrightarrow> \<exists>rs. xs = map Fin rs"
proof (induction xs arbitrary: cs)
  case Nil
  then show ?case by simp
next
  case (Cons x xs)
  then obtain c cs' where cs: "cs = c # cs'" "fabs x = Fin c" "np_abs xs = map Fin cs'"
    by (cases cs) (auto simp: np_abs_def)
  from Cons.IH [OF cs(3)] obtain rs where "xs = map Fin rs" by blast
  moreover from cs(2) obtain a where "x = Fin a" using fabs_eq_Fin by blast
  ultimately have "x # xs = map Fin (a # rs)" by simp
  then show ?case by (rule exI)
qed

lemma l1_Fin_row: "np_sum (np_abs row) = Fin c \<Longrightarrow> \<exists>rs. row = map Fin rs \<and> c = sum_list (map abs rs)"
proof -
  assume a: "np_sum (np_abs row) = Fin c"
  from np_sum_Fin_all [OF a] obtain cs where "np_abs row = map Fin cs" by blast
  from np_abs_eq_map_Fin [OF this] obtain rs where rs: "row = map Fin rs" by blast
  with a have "c = sum_list (map abs rs)" by simp
  with rs show ?thesis by blast
qed

lemma sum_list_abs_nonneg: "0 \<le> sum_list (map abs (rs :: real list))"
  by (induction rs) simp_all

lemma divide_row_Fin:
  "c = sum_list (map abs rs) \<Longrightarrow> c \<noteq> 0 \<Longrightarrow> divide_row (map Fin rs) = map Fin (map (\<lambda>r. r / c) rs)"
  by (simp add: divide_row_def)

lemma divide_row_l1:
  assumes "np_sum (np_abs row) = Fin c" and "c \<noteq> 0"
  shows "np_sum (np_abs (divide_row row)) = Fin 1"
proof -
  from l1_Fin_row [OF assms(1)] obtain rs where rs: "row = map Fin rs" "c = sum_list (map abs rs)"
    by blast
  have "np_sum (np_abs (divide_row row)) = Fin (sum_list (map abs (map (\<lambda>r. r / c) rs)))"
    unfolding rs(1) divide_row_Fin [OF rs(2) assms(2)] by (rule np_sum_abs_Fin)
  also have "sum_list (map abs (map (\<lambda>r. r / c) rs)) = sum_list (map abs rs) / \<bar>c\<bar>"
    by (induction rs) (simp_all add: add_divide_distrib)
  also have "\<dots> = 1"
    using rs(2) assms(2) sum_list_abs_nonneg [of rs] by simp
  finally show ?thesis .
qed

lemma divide_row_zero:
  assumes "np_sum (np_abs row) = Fin 0"
  shows "divide_row row = replicate (length row) NaN"
proof -
  from l1_Fin_row [OF assms] obtain rs where rs: "row = map Fin rs" "0 = sum_list (map abs rs)"
    by blast
  have "\<forall>r\<in>set rs. r = 0"
    using rs(2) by (induction rs) (auto simp: add_nonneg_eq_0_iff sum_list_abs_nonneg)
  then have "map (\<lambda>v. fdiv v (Fin 0)) (map Fin rs) = replicate (length rs) NaN"
    by (induction rs) simp_all
  then show ?thesis
    using assms rs(1) by (simp add: divide_row_def)
qed

lemma normalize_dispatch [simp]:
  "normalize_perceptron_weights s self = active_normalize_perceptron_weights s self"
  by (simp add: normalize_perceptron_weights_def split: node_class.splits)

lemma predict_dispatch [simp]: "predict s self X = active_predict s self X"
  by (simp add: predict_def split: node_class.splits)

lemma create_dispatch [simp]: "create_weights s self X y = active_create_weights s self X y"
  by (simp add: create_weights_def split: node_class.splits)

lemma active_normalize_Some:
  "perceptron_weight self = Some a \<Longrightarrow>
   active_normalize_perceptron_weights s self =
     Inr (s\<lparr>cells := (cells s)(a := (cells s a)\<lparr>mat_rows := map divide_row (mat_rows (cells s a))\<rparr>)\<rparr>)"
  by (simp add: active_normalize_perceptron_weights_def Let_def active_normalize_rows_all)


lemma iadd_weights_Inr:
  "iadd_weights s self D = Inr s1 \<longleftrightarrow>
     (\<exists>a raw. perceptron_weight self = Some a \<and> np_iadd2 (cells s a) D = Inr raw
        \<and> s1 = s\<lparr>cells := (cells s)(a := raw)\<rparr>)"
  by (auto simp: iadd_weights_def bnd_eq_Inr split: option.splits)

lemma active_update_weights_Inr:
  "active_update_weights s self X y lr rht = Inr (s', self') \<longleftrightarrow>
     (\<exists>a p e raw. perceptron_weight self = Some a
        \<and> np_matmul (cells s a) (normalize_sample rht X) = Inr p
        \<and> np_binop fsub (normalize_target_value rht y) p = Inr e
        \<and> np_iadd2 (cells s a) (scale lr (np_outer e (normalize_sample rht X))) = Inr raw
        \<and> s' = s\<lparr>cells := (cells s)(a := raw\<lparr>mat_rows := map divide_row (mat_rows raw)\<rparr>)\<rparr>
        \<and> self' = self)"
proof (cases "perceptron_weight self")
  case None
  then show ?thesis
    by (simp add: active_update_weights_def active_predict_def)
next
  case (Some a)
  then show ?thesis
    by (auto simp: active_update_weights_def active_predict_def Let_def bnd_eq_Inr
        iadd_weights_Inr active_normalize_Some)
qed

lemma active_adaptive_update_weights_Inr:
  "active_adaptive_update_weights s self X y lr rht = Inr (s', self') \<longleftrightarrow>
     (\<exists>a p e raw fP mean eM fM. perceptron_weight self = Some a
        \<and> np_matmul (cells s a) (normalize_sample rht X) = Inr p
        \<and> np_binop fsub (normalize_target_value rht y) p = Inr e
        \<and> np_iadd2 (cells s a) (scale lr (np_outer e (normalize_sample rht X))) = Inr raw
        \<and> s' = s\<lparr>cells := (cells s)(a := raw\<lparr>mat_rows := map divide_row (mat_rows raw)\<rparr>)\<rparr>
        \<and> fade (fMAE_P self) (np_abs e) = Inr fP
        \<and> stats_mean (stats self) = Inr mean
        \<and> np_binop fsub (normalize_target_value rht y) (normalize_target_value rht mean) = Inr eM
        \<and> fade (fMAE_M self) (np_abs eM) = Inr fM
        \<and> self' = self\<lparr>fMAE_P := fP, fMAE_M := fM\<rparr>)"
proof (cases "perceptron_weight self")
  case None
  then show ?thesis
    by (simp add: active_adaptive_update_weights_def active_predict_def)
next
  case (Some a)
  then show ?thesis
    by (auto simp: active_adaptive_update_weights_def active_predict_def Let_def bnd_eq_Inr
        iadd_weights_Inr active_normalize_Some)
qed

lemma update_weights_weights:
  assumes "update_weights s self X y lr rht = Inr (s', self')"
  shows "\<exists>a p e raw. perceptron_weight self = Some a \<and> perceptron_weight self' = Some a
        \<and> np_matmul (cells s a) (normalize_sample rht X) = Inr p
        \<and> np_binop fsub (normalize_target_value rht y) p = Inr e
        \<and> np_iadd2 (cells s a) (scale lr (np_outer e (normalize_sample rht X))) = Inr raw
        \<and> s' = s\<lparr>cells := (cells s)(a := raw\<lparr>mat_rows := map divide_row (mat_rows raw)\<rparr>)\<rparr>"
proof (cases "node_class self = ActivePerceptronMT \<or> node_class self = InactivePerceptronMT")
  case True
  with assms have "active_update_weights s self X y lr rht = Inr (s', self')"
    by (auto simp: update_weights_def)
  then show ?thesis
    unfolding active_update_weights_Inr by blast
next
  case False
  with assms have "active_adaptive_update_weights s self X y lr rht = Inr (s', self')"
    by (cases "node_class self") (auto simp: update_weights_def)
  then show ?thesis
    unfolding active_adaptive_update_weights_Inr by fastforce
qed

lemma rows_normalized_from_divide: "rows_normalized_from W (map divide_row W)"
proof -
  have "list_all2 (\<lambda>r w. is_nonzero_number (np_sum (np_abs r)) \<longrightarrow> np_sum (np_abs w) = Fin 1)
          W (map divide_row W)"
    by (induction W) (auto simp: is_nonzero_number_def divide_row_l1 split: fl.splits)
  then show ?thesis by (simp add: rows_normalized_from_def)
qed

lemma active_create_weights_None:
  assumes "perceptron_weight self = None"
  shows "active_create_weights s self X y =
   (let W = fst (rng_uniform (random_state self) (length y) (length X + 1)) in
    Inr (s\<lparr>cells := (cells s)(next_free s := W\<lparr>mat_rows := map divide_row (mat_rows W)\<rparr>),
           next_free := Suc (next_free s)\<rparr>,
         self\<lparr>perceptron_weight := Some (next_free s),
              random_state := snd (rng_uniform (random_state self) (length y) (length X + 1))\<rparr>))"
  using assms
  by (simp add: active_create_weights_def get_dimensions_def alloc_def Let_def
      active_normalize_Some split: prod.splits)

lemma np_sum_map2_fmul_Fin:
  "np_sum (map2 fmul (map Fin rs) (map Fin xs)) = Fin (sum_list (map2 (*) rs xs))"
proof (induction rs arbitrary: xs)
  case Nil
  then show ?case by simp
next
  case (Cons r rs)
  then show ?case by (cases xs) simp_all
qed

lemma np_dot_Fin:
  assumes "length row = length xs"
  shows "np_dot (map Fin row) (map Fin xs) = Fin (\<Sum>j<length xs. row ! j * xs ! j)"
proof -
  have "np_dot (map Fin row) (map Fin xs) = Fin (sum_list (map2 (*) row xs))"
    unfolding np_dot_def by (rule np_sum_map2_fmul_Fin)
  also have "sum_list (map2 (*) row xs) = (\<Sum>j = 0..<length xs. map2 (*) row xs ! j)"
    using assms by (simp add: sum_list_sum_nth)
  also have "\<dots> = (\<Sum>j<length xs. row ! j * xs ! j)"
    using assms by (intro sum.cong) (auto simp: lessThan_atLeast0)
  finally show ?thesis .
qed

lemma bnd_Inr_right [simp]: "bnd m Inr = m"
  by (cases m) simp_all

lemma bnd_assoc: "bnd (bnd m f) g = bnd m (\<lambda>v. bnd (f v) g)"
  by (cases m) simp_all

lemma for_range_upt: "for_range [i..<i + k] body st = repeat_steps k body st"
proof (induction k arbitrary: i st)
  case 0
  then show ?case by simp
next
  case (Suc k)
  have eq: "[i..<i + Suc k] = i # [Suc i..<Suc i + k]"
    by (simp add: upt_conv_Cons)
  have ih: "for_range [Suc i..<Suc i + k] body = repeat_steps k body"
    by (rule ext) (rule Suc.IH)
  show ?case
    by (simp only: eq for_range.simps ih repeat_steps.simps)
qed

lemma for_range_py_range: "for_range (py_range k) body st = repeat_steps (nat k) body st"
  using for_range_upt [of 0 "nat k" body st] by (simp add: py_range_def)

lemma learn_from_instance_unfold:
  "learn_from_instance s self X y w rht =
     bnd (create_weights s self X y) (\<lambda>(s0, self0).
     bnd (learning_ratio rht (add_weight (stats self0) w)) (\<lambda>lr.
     bnd (add_targets (add_weight (stats self0) w) y w) (\<lambda>st.
     bnd (py_int w) (\<lambda>k.
     bnd (repeat_steps (nat k) (\<lambda>(s', self'). update_weights s' self' X y lr rht)
            (s0, self0\<lparr>stats := st\<rparr>))
       (finish_learning (node_class self) rht X y w)))))"
proof -
  have fin_inactive: "finish_learning InactivePerceptronMT rht X y w = Inr"
    "finish_learning InactiveAdaptiveMT rht X y w = Inr"
    by (simp_all add: fun_eq_iff finish_learning_def)
  have fin_active: "finish_learning ActivePerceptronMT rht X y w =
      (\<lambda>(s3, self3). Inr (s3, self3\<lparr>attribute_observers :=
                      update_observers rht y w 0 X (attribute_observers self3)\<rparr>))"
    "finish_learning ActiveAdaptiveMT rht X y w =
      (\<lambda>(s3, self3). Inr (s3, self3\<lparr>attribute_observers :=
                      update_observers rht y w 0 X (attribute_observers self3)\<rparr>))"
    by (simp_all add: fun_eq_iff finish_learning_def)
  show ?thesis
    by (cases "node_class self")
      (simp_all add: learn_from_instance_def active_learn_from_instance_def
        inactive_learn_from_instance_def Let_def for_range_py_range fin_inactive fin_active)
qed

lemma py_int_nonneg: "0 \<le> r \<Longrightarrow> py_int (Fin r) = Inr \<lfloor>r\<rfloor>"
  by (simp add: py_int_def)

lemma update_weights_frame:
  assumes "update_weights s self X y lr rht = Inr (s', self')"
  shows "\<exists>fP fM. self' = self\<lparr>fMAE_P := fP, fMAE_M := fM\<rparr>"
proof (cases "node_class self = ActivePerceptronMT \<or> node_class self = InactivePerceptronMT")
  case True
  with assms have "active_update_weights s self X y lr rht = Inr (s', self')"
    by (auto simp: update_weights_def)
  then have "self' = self"
    unfolding active_update_weights_Inr by blast
  then have "self' = self\<lparr>fMAE_P := fMAE_P self, fMAE_M := fMAE_M self\<rparr>"
    by simp
  then show ?thesis by blast
next
  case False
  with assms have "active_adaptive_update_weights s self X y lr rht = Inr (s', self')"
    by (cases "node_class self") (auto simp: update_weights_def)
  then show ?thesis
    unfolding active_adaptive_update_weights_Inr by blast
qed

lemma repeat_steps_invariant:
  assumes "\<And>st st'. P st \<Longrightarrow> step st = Inr st' \<Longrightarrow> P st'"
    and "P st" and "repeat_steps k step st = Inr st'"
  shows "P st'"
  using assms(2,3)
proof (induction k arbitrary: st)
  case 0
  then show ?case by simp
next
  case (Suc k)
  from Suc.prems(2) obtain st1 where st1: "step st = Inr st1" "repeat_steps k step st1 = Inr st'"
    by (auto simp: bnd_eq_Inr)
  from assms(1) [OF Suc.prems(1) st1(1)] have "P st1" .
  from Suc.IH [OF this st1(2)] show ?case .
qed

lemma steps_frame:
  assumes "repeat_steps k (\<lambda>(s', self'). update_weights s' self' X y lr rht) (s0, self0) = Inr (s', self')"
  shows "stats self' = stats self0 \<and> node_class self' = node_class self0
       \<and> attribute_observers self' = attribute_observers self0
       \<and> perceptron_weight self' = perceptron_weight self0
       \<and> random_state self' = random_state self0"
proof -
  let ?P = "\<lambda>st. stats (snd st) = stats self0 \<and> node_class (snd st) = node_class self0
       \<and> attribute_observers (snd st) = attribute_observers self0
       \<and> perceptron_weight (snd st) = perceptron_weight self0
       \<and> random_state (snd st) = random_state self0"
  have "?P (s', self')"
  proof (rule repeat_steps_invariant [where P = ?P, OF _ _ assms])
    show "?P (s0, self0)" by simp
  next
    fix st st' :: "store \<times> node"
    assume P: "?P st" and step: "(case st of (s', self') \<Rightarrow> update_weights s' self' X y lr rht) = Inr st'"
    obtain a b where st: "st = (a, b)" by (cases st)
    obtain c d where st': "st' = (c, d)" by (cases st')
    from step st st' have "update_weights a b X y lr rht = Inr (c, d)" by simp
    from update_weights_frame [OF this] obtain fP fM where "d = b\<lparr>fMAE_P := fP, fMAE_M := fM\<rparr>"
      by blast
    with P st st' show "?P st'" by simp
  qed
  then show ?thesis by simp
qed

lemma create_weights_frame:
  assumes "active_create_weights s self X y = Inr (s0, self0)"
  shows "stats self0 = stats self \<and> node_class self0 = node_class self
       \<and> attribute_observers self0 = attribute_observers self
       \<and> fMAE_P self0 = fMAE_P self \<and> fMAE_M self0 = fMAE_M self"
proof (cases "perceptron_weight self")
  case None
  with assms show ?thesis
    by (auto simp: active_create_weights_None Let_def)
next
  case (Some a)
  with assms show ?thesis
    by (simp add: active_create_weights_def)
qed

lemma add_targets_stats_0: "add_targets st y w = Inr st' \<Longrightarrow> stats_0 st' = stats_0 st"
  by (auto simp: add_targets_def Let_def bnd_eq_Inr split: option.splits)

lemma add_weight_stats_0:
  "stats_0 (add_weight st w) = Some (case stats_0 st of None \<Rightarrow> w | Some c \<Rightarrow> fadd c w)"
  by (simp add: add_weight_def split: option.splits)

lemma finish_learning_frame:
  assumes "finish_learning cls rht X y w (s3, self3) = Inr (s', self')"
  shows "s' = s3 \<and> stats self' = stats self3 \<and> node_class self' = node_class self3
       \<and> perceptron_weight self' = perceptron_weight self3
       \<and> random_state self' = random_state self3
       \<and> fMAE_P self' = fMAE_P self3 \<and> fMAE_M self' = fMAE_M self3"
  using assms by (cases cls) (auto simp: finish_learning_def)

lemma learn_from_instance_Inr:
  assumes "learn_from_instance s self X y w rht = Inr (s', self')"
  shows "\<exists>s0 self0 lr k self3.
      create_weights s self X y = Inr (s0, self0)
    \<and> learning_ratio rht (add_weight (stats self) w) = Inr lr
    \<and> add_targets (add_weight (stats self) w) y w = Inr (stats self')
    \<and> py_int w = Inr k
    \<and> repeat_steps (nat k) (\<lambda>(s', self'). update_weights s' self' X y lr rht)
         (s0, self0\<lparr>stats := stats self'\<rparr>) = Inr (s', self3)
    \<and> finish_learning (node_class self) rht X y w (s', self3) = Inr (s', self')"
proof -
  from assms obtain s0 self0 lr st k s3 self3 where
    h: "create_weights s self X y = Inr (s0, self0)"
       "learning_ratio rht (add_weight (stats self0) w) = Inr lr"
       "add_targets (add_weight (stats self0) w) y w = Inr st"
       "py_int w = Inr k"
       "repeat_steps (nat k) (\<lambda>(s', self'). update_weights s' self' X y lr rht)
         (s0, self0\<lparr>stats := st\<rparr>) = Inr (s3, self3)"
       "finish_learning (node_class self) rht X y w (s3, self3) = Inr (s', self')"
    unfolding learn_from_instance_unfold by (auto simp: bnd_eq_Inr)
  from h(1) have c: "stats self0 = stats self"
    using create_weights_frame by simp
  from steps_frame [OF h(5)] have "stats self3 = st" by simp
  moreover from finish_learning_frame [OF h(6)] have f: "s' = s3" "stats self' = stats self3"
    by simp_all
  ultimately have "st = stats self'" by simp
  with h c f(1) show ?thesis by auto
qed

lemma learn_from_instance_stats_0:
  assumes "learn_from_instance s self X y w rht = Inr (s', self')"
  shows "stats_0 (stats self') = Some (case stats_0 (stats self) of None \<Rightarrow> w | Some c \<Rightarrow> fadd c w)"
proof -
  from learn_from_instance_Inr [OF assms]
  have "add_targets (add_weight (stats self) w) y w = Inr (stats self')" by blast
  from add_targets_stats_0 [OF this] show ?thesis
    by (simp add: add_weight_stats_0)
qed

lemma learn_all_count:
  assumes "learn_all s self (map (\<lambda>(X, y, r, rht). (X, y, Fin r, rht)) obs) = Inr (s', self')"
    and "stats_0 (stats self) = Some (Fin c)"
  shows "stats_0 (stats self') = Some (Fin (c + (\<Sum>(X, y, r, rht)\<leftarrow>obs. r)))"
  using assms
proof (induction obs arbitrary: s self c)
  case Nil
  then show ?case by simp
next
  case (Cons ob obs)
  obtain X y r rht where ob: "ob = (X, y, r, rht)" by (cases ob)
  from Cons.prems(1) ob obtain s1 self1 where
    step: "learn_from_instance s self X y (Fin r) rht = Inr (s1, self1)"
    and rest: "learn_all s1 self1 (map (\<lambda>(X, y, r, rht). (X, y, Fin r, rht)) obs) = Inr (s', self')"
    by (auto simp: bnd_eq_Inr)
  from learn_from_instance_stats_0 [OF step] Cons.prems(2)
  have "stats_0 (stats self1) = Some (Fin (c + r))" by simp
  from Cons.IH [OF rest this] ob show ?case by (simp add: add.assoc)
qed

lemma map_sum_bnd: "map_sum id g (bnd m f) = bnd m (\<lambda>v. map_sum id g (f v))"
  by (cases m) simp_all

lemma active_update_weights_class:
  "active_update_weights s (n\<lparr>node_class := c\<rparr>) X y lr rht =
   map_sum id (\<lambda>(s', n'). (s', n'\<lparr>node_class := c\<rparr>)) (active_update_weights s n X y lr rht)"
  by (simp add: active_update_weights_def Let_def map_sum_bnd active_predict_def
      iadd_weights_def active_normalize_perceptron_weights_def)

lemma node_class_update_last:
  "n\<lparr>node_class := c, fMAE_P := fP, fMAE_M := fM\<rparr> = n\<lparr>fMAE_P := fP, fMAE_M := fM, node_class := c\<rparr>"
  by (cases n) simp

lemma active_adaptive_update_weights_class:
  "active_adaptive_update_weights s (n\<lparr>node_class := c\<rparr>) X y lr rht =
   map_sum id (\<lambda>(s', n'). (s', n'\<lparr>node_class := c\<rparr>))
     (active_adaptive_update_weights s n X y lr rht)"
  by (simp add: active_adaptive_update_weights_def Let_def map_sum_bnd active_predict_def
      iadd_weights_def active_normalize_perceptron_weights_def node_class_update_last)

lemma update_weights_activate:
  assumes "is_inactive (node_class n)"
  shows "update_weights s (n\<lparr>node_class := activate (node_class n)\<rparr>) X y lr rht =
   map_sum id (\<lambda>(s', n'). (s', n'\<lparr>node_class := activate (node_class n)\<rparr>))
     (update_weights s n X y lr rht)"
  using assms
  by (cases "node_class n")
    (simp_all add: is_inactive_def activate_def update_weights_def active_update_weights_class
      active_adaptive_update_weights_class)

lemma active_create_weights_class:
  "active_create_weights s (n\<lparr>node_class := c\<rparr>) X y =
   map_sum id (\<lambda>(s', n'). (s', n'\<lparr>node_class := c\<rparr>)) (active_create_weights s n X y)"
  by (simp add: active_create_weights_def Let_def map_sum_bnd
      active_normalize_perceptron_weights_def split: prod.splits)

lemma repeat_steps_sim:
  assumes "\<And>st. P st \<Longrightarrow> step2 (g st) = map_sum id g (step1 st)"
    and "\<And>st st'. P st \<Longrightarrow> step1 st = Inr st' \<Longrightarrow> P st'"
    and "P st"
  shows "repeat_steps k step2 (g st) = map_sum id g (repeat_steps k step1 st)"
  using assms(3)
proof (induction k arbitrary: st)
  case 0
  then show ?case by simp
next
  case (Suc k)
  show ?case
  proof (cases "step1 st")
    case (Inl e)
    with assms(1) [OF Suc.prems] show ?thesis by simp
  next
    case (Inr st')
    with assms(2) [OF Suc.prems] have "P st'" by simp
    from Suc.IH [OF this] Inr assms(1) [OF Suc.prems] show ?thesis by simp
  qed
qed

lemma steps_activate:
  assumes "is_inactive (node_class n)"
  shows "repeat_steps k (\<lambda>(s', self'). update_weights s' self' X y lr rht)
           (s, n\<lparr>node_class := activate (node_class n)\<rparr>) =
         map_sum id (\<lambda>(s', n'). (s', n'\<lparr>node_class := activate (node_class n)\<rparr>))
           (repeat_steps k (\<lambda>(s', self'). update_weights s' self' X y lr rht) (s, n))"
proof -
  let ?c = "node_class n"
  let ?g = "\<lambda>(s', n'). (s', n'\<lparr>node_class := activate ?c\<rparr>)"
  let ?step = "\<lambda>(s', self'). update_weights s' self' X y lr rht"
  let ?P = "\<lambda>st. node_class (snd st) = ?c"
  have "repeat_steps k ?step (?g (s, n)) = map_sum id ?g (repeat_steps k ?step (s, n))"
  proof (rule repeat_steps_sim [where P = ?P])
    show "?P (s, n)" by simp
  next
    fix st :: "store \<times> node"
    assume P: "?P st"
    obtain a b where st: "st = (a, b)" by (cases st)
    with P assms have "is_inactive (node_class b)" and "node_class b = ?c" by simp_all
    from update_weights_activate [OF this(1), of a X y lr rht] this(2) st
    show "?step (?g st) = map_sum id ?g (?step st)" by simp
  next
    fix st st' :: "store \<times> node"
    assume P: "?P st" and step: "?step st = Inr st'"
    obtain a b where st: "st = (a, b)" by (cases st)
    obtain c d where st': "st' = (c, d)" by (cases st')
    from step st st' have "update_weights a b X y lr rht = Inr (c, d)" by simp
    from update_weights_frame [OF this] obtain fP fM where "d = b\<lparr>fMAE_P := fP, fMAE_M := fM\<rparr>"
      by blast
    with P st st' show "?P st'" by simp
  qed
  then show ?thesis by simp
qed

lemma node_class_stats_comm:
  "n\<lparr>node_class := c, stats := st\<rparr> = n\<lparr>stats := st, node_class := c\<rparr>"
  by (cases n) simp

lemma predictor_state_finish:
  "predictor_state (bnd m (finish_learning cls rht X y w)) = predictor_state m"
proof (cases m)
  case (Inl e)
  then show ?thesis by simp
next
  case (Inr st)
  obtain a b where "st = (a, b)" by (cases st)
  with Inr show ?thesis
    by (cases cls) (simp_all add: finish_learning_def predictor_state_def)
qed

lemma predictor_state_class:
  "predictor_state (map_sum id (\<lambda>(s', n'). (s', n'\<lparr>node_class := c\<rparr>)) m) = predictor_state m"
  by (cases m) (auto simp: predictor_state_def)

lemma fadd_zero_right [simp]: "fadd x (Fin 0) = x"
  by (cases x) simp_all

lemma fmul_fmul_pos: "0 < a \<Longrightarrow> 0 < b \<Longrightarrow> fmul (Fin a) (fmul (Fin b) x) = fmul (Fin (a * b)) x"
  by (cases x) (simp_all add: mult.assoc)

lemma fsub_self_fin: "is_fin v \<Longrightarrow> fsub v v = Fin 0"
  by (cases v) (simp_all add: is_fin_def fsub_def)

lemma map2_fsub_self:
  "list_all is_fin t \<Longrightarrow> map2 fsub t t = replicate (length t) (Fin 0)"
  by (induction t) (simp_all add: fsub_self_fin)

lemma np_binop_fsub_self:
  "list_all is_fin t \<Longrightarrow> np_binop fsub t t = Inr (replicate (length t) (Fin 0))"
  by (simp add: np_binop_def map2_fsub_self)

lemma np_abs_zeros: "np_abs (replicate k (Fin 0)) = replicate k (Fin 0)"
  by (simp add: np_abs_def)

lemma map2_fadd_zeros: "length v = k \<Longrightarrow> map2 fadd v (replicate k (Fin 0)) = v"
proof (induction v arbitrary: k)
  case Nil
  then show ?case by simp
next
  case (Cons x v)
  then obtain j where "k = Suc j" by (cases k) auto
  with Cons show ?case by simp
qed

lemma fade_zeros:
  assumes "faded_for k f"
  shows "\<exists>f'. fade f (replicate k (Fin 0)) = Inr f' \<and> faded_for k f'
           \<and> (\<forall>i<k. faded_at f' i = fmul (Fin 0.95) (faded_at f i))"
proof (cases f)
  case (PyFloat c)
  then show ?thesis
    by (simp add: fade_def faded_for_def faded_at_def)
next
  case (NdArray v)
  with assms have len: "length v = k" by (simp add: faded_for_def)
  then have "map2 fadd (map (fmul (Fin 0.95)) v) (replicate k (Fin 0)) = map (fmul (Fin 0.95)) v"
    by (simp add: map2_fadd_zeros)
  with NdArray len show ?thesis
    by (simp add: fade_def np_binop_def faded_for_def faded_at_def)
qed

lemma repeat_steps_one: "repeat_steps (Suc 0) step st = step st"
  by (cases "step st") simp_all

lemma exact_step:
  assumes ad: "is_adaptive (node_class self)"
    and ff: "faded_for k (fMAE_P self)"
    and len: "length (normalize_target_value rht y) = k"
    and fin: "list_all is_fin (normalize_target_value rht y)"
    and cr: "create_weights s self X y = Inr (s0, self0)"
    and pr: "predict s0 self0 (normalize_sample rht X) = Inr (normalize_target_value rht y)"
    and run: "learn_from_instance s self X y (Fin 1) rht = Inr (s', self')"
  shows "is_adaptive (node_class self') \<and> faded_for k (fMAE_P self')
       \<and> (\<forall>i<k. faded_at (fMAE_P self') i = fmul (Fin 0.95) (faded_at (fMAE_P self) i))"
proof -
  from learn_from_instance_Inr [OF run] cr obtain lr j self3 where
    h: "py_int (Fin 1) = Inr j"
       "repeat_steps (nat j) (\<lambda>(s', self'). update_weights s' self' X y lr rht)
         (s0, self0\<lparr>stats := stats self'\<rparr>) = Inr (s', self3)"
       "finish_learning (node_class self) rht X y (Fin 1) (s', self3) = Inr (s', self')"
    by auto
  from h(1) have j: "nat j = Suc 0" by (auto simp: py_int_def)
  let ?n = "self0\<lparr>stats := stats self'\<rparr>"
  from h(2) have up: "update_weights s0 ?n X y lr rht = Inr (s', self3)"
    unfolding j repeat_steps_one by simp
  from cr have fr: "node_class self0 = node_class self" "fMAE_P self0 = fMAE_P self"
    using create_weights_frame by simp_all
  from ad fr(1) have "is_adaptive (node_class ?n)" by simp
  with up have "active_adaptive_update_weights s0 ?n X y lr rht = Inr (s', self3)"
    by (cases "node_class self0") (auto simp: is_adaptive_def update_weights_def)
  then obtain a p e fP fM where
    u: "perceptron_weight ?n = Some a"
       "np_matmul (cells s0 a) (normalize_sample rht X) = Inr p"
       "np_binop fsub (normalize_target_value rht y) p = Inr e"
       "fade (fMAE_P ?n) (np_abs e) = Inr fP"
       "self3 = ?n\<lparr>fMAE_P := fP, fMAE_M := fM\<rparr>"
    unfolding active_adaptive_update_weights_Inr by blast
  from pr u(1,2) have "p = normalize_target_value rht y"
    by (simp add: active_predict_def)
  with u(3) fin len have "e = replicate k (Fin 0)"
    by (simp add: np_binop_fsub_self)
  with u(4) fr(2) have fd: "fade (fMAE_P self) (replicate k (Fin 0)) = Inr fP"
    by (simp add: np_abs_zeros)
  from fade_zeros [OF ff] fd have
    "faded_for k fP" "\<forall>i<k. faded_at fP i = fmul (Fin 0.95) (faded_at (fMAE_P self) i)"
    by auto
  moreover from finish_learning_frame [OF h(3)] u(5) fr(1)
  have "fMAE_P self' = fP" "node_class self' = node_class self" by simp_all
  ultimately show ?thesis using ad by simp
qed

lemma exact_run_decay:
  assumes "is_adaptive (node_class self)" and "faded_for k (fMAE_P self)"
    and "exact_run k s self obs"
  shows "\<exists>s' self'. learn_all s self obs = Inr (s', self')
       \<and> (\<forall>i<k. faded_at (fMAE_P self') i
                   = fmul (Fin (0.95 ^ length obs)) (faded_at (fMAE_P self) i))"
  using assms
proof (induction obs arbitrary: s self)
  case Nil
  have "fmul (Fin 1) x = x" for x by (cases x) simp_all
  then show ?case by simp
next
  case (Cons ob obs)
  obtain X y w rht where ob: "ob = (X, y, w, rht)" by (cases ob)
  from Cons.prems(3) ob obtain s0 self0 s1 self1 where
    e: "w = Fin 1" "length (normalize_target_value rht y) = k"
       "list_all is_fin (normalize_target_value rht y)"
       "create_weights s self X y = Inr (s0, self0)"
       "predict s0 self0 (normalize_sample rht X) = Inr (normalize_target_value rht y)"
       "learn_from_instance s self X y w rht = Inr (s1, self1)"
       "exact_run k s1 self1 obs"
    by (auto split: sum.splits)
  from exact_step [OF Cons.prems(1,2) e(2,3,4,5) e(6) [unfolded e(1)]]
  have st: "is_adaptive (node_class self1)" "faded_for k (fMAE_P self1)"
    "\<forall>i<k. faded_at (fMAE_P self1) i = fmul (Fin 0.95) (faded_at (fMAE_P self) i)"
    by simp_all
  from Cons.IH [OF st(1,2) e(7)] obtain s' self' where
    r: "learn_all s1 self1 obs = Inr (s', self')"
       "\<forall>i<k. faded_at (fMAE_P self') i
                   = fmul (Fin (0.95 ^ length obs)) (faded_at (fMAE_P self1) i)"
    by blast
  have "learn_all s self (ob # obs) = Inr (s', self')"
    using ob e(6) r(1) by simp
  moreover have "\<forall>i<k. faded_at (fMAE_P self') i
                   = fmul (Fin (0.95 ^ length (ob # obs))) (faded_at (fMAE_P self) i)"
  proof (intro allI impI)
    fix i assume "i < k"
    with r(2) st(3) have "faded_at (fMAE_P self') i
        = fmul (Fin (0.95 ^ length obs)) (fmul (Fin 0.95) (faded_at (fMAE_P self) i))"
      by simp
    also have "\<dots> = fmul (Fin (0.95 ^ length obs * 0.95)) (faded_at (fMAE_P self) i)"
      by (rule fmul_fmul_pos) simp_all
    finally show "faded_at (fMAE_P self') i
        = fmul (Fin (0.95 ^ length (ob # obs))) (faded_at (fMAE_P self) i)"
      by (simp add: mult.commute)
  qed
  ultimately show ?case by blast
qed

lemma repeat_steps_numeral:
  "repeat_steps (numeral n) step st = bnd (step st) (repeat_steps (pred_numeral n) step)"
  by (simp add: numeral_eq_Suc)

lemma scaled_targets: "map (fmul (Fin r)) (map Fin ys) = map (\<lambda>v. Fin (r * v)) ys"
  by (rule nth_equalityI) simp_all

lemma scaled_squares:
  "map2 fmul (map (\<lambda>v. Fin (r * v)) ys) (map Fin ys) = map (\<lambda>v. Fin (r * v * v)) ys"
  by (rule nth_equalityI) simp_all

lemma added_targets:
  "length a = length ys \<Longrightarrow>
   map2 fadd (map Fin a) (map (\<lambda>v. Fin (r * v)) ys) = map Fin (map2 (\<lambda>u v. u + r * v) a ys)"
  by (rule nth_equalityI) simp_all

lemma added_squares:
  "length b = length ys \<Longrightarrow>
   map2 fadd (map Fin b) (map (\<lambda>v. Fin (r * v * v)) ys)
     = map Fin (map2 (\<lambda>u v. u + r * v * v) b ys)"
  by (rule nth_equalityI) simp_all

lemma add_targets_fresh:
  assumes "stats_1 st = None"
  shows "add_targets st (map Fin ys) (Fin r) =
     Inr (st\<lparr>stats_1 := Some (map (\<lambda>v. Fin (r * v)) ys),
              stats_2 := Some (map (\<lambda>v. Fin (r * v * v)) ys)\<rparr>)"
  using assms unfolding add_targets_def scaled_targets
  by (simp add: Let_def scaled_squares)

lemma add_targets_accumulate:
  assumes "stats_1 st = Some (map Fin a)" and "stats_2 st = Some (map Fin b)"
    and "length a = length ys" and "length b = length ys"
  shows "add_targets st (map Fin ys) (Fin r) =
     Inr (st\<lparr>stats_1 := Some (map Fin (map2 (\<lambda>u v. u + r * v) a ys)),
              stats_2 := Some (map Fin (map2 (\<lambda>u v. u + r * v * v) b ys))\<rparr>)"
  using assms unfolding add_targets_def scaled_targets
  by (simp add: Let_def np_iadd_def scaled_squares added_targets added_squares)

lemma fade_explicit:
  assumes "faded_for k f" and "length t = k" and "length p = k"
    and "np_binop fsub t p = Inr e" and "fade f (np_abs e) = Inr f'"
  shows "faded_for k f' \<and>
     (\<forall>i<k. faded_at f' i = fadd (fmul (Fin 0.95) (faded_at f i)) (fabs (fsub (t ! i) (p ! i))))"
proof -
  from assms(2,3,4) have e: "e = map2 fsub t p"
    by (simp add: np_binop_def)
  show ?thesis
  proof (cases f)
    case (PyFloat c)
    with assms(2,3,5) e show ?thesis
      by (auto simp: fade_def np_abs_def faded_for_def faded_at_def)
  next
    case (NdArray v)
    with assms(1) have "length v = k" by (simp add: faded_for_def)
    with NdArray assms(2,3,5) e show ?thesis
      by (auto simp: fade_def np_abs_def np_binop_def faded_for_def faded_at_def)
  qed
qed

lemma adaptive_update_fade:
  assumes "is_adaptive (node_class self)"
    and "update_weights s self X y lr rht = Inr (s', self')"
  shows "\<exists>p e. predict s self (normalize_sample rht X) = Inr p
               \<and> np_binop fsub (normalize_target_value rht y) p = Inr e
               \<and> fade (fMAE_P self) (np_abs e) = Inr (fMAE_P self')
               \<and> node_class self' = node_class self"
proof -
  from assms have "active_adaptive_update_weights s self X y lr rht = Inr (s', self')"
    by (cases "node_class self") (auto simp: is_adaptive_def update_weights_def)
  then obtain a p e fP fM where
    u: "perceptron_weight self = Some a"
       "np_matmul (cells s a) (normalize_sample rht X) = Inr p"
       "np_binop fsub (normalize_target_value rht y) p = Inr e"
       "fade (fMAE_P self) (np_abs e) = Inr fP"
       "self' = self\<lparr>fMAE_P := fP, fMAE_M := fM\<rparr>"
    unfolding active_adaptive_update_weights_Inr by blast
  from u(1,2) have "predict s self (normalize_sample rht X) = Inr p"
    by (simp add: active_predict_def)
  moreover from u(4,5) have "fade (fMAE_P self) (np_abs e) = Inr (fMAE_P self')" by simp
  moreover from u(5) have "node_class self' = node_class self" by simp
  ultimately show ?thesis using u(3) by blast
qed

lemma steps_faded:
  assumes "is_adaptive (node_class self)" and "faded_for k (fMAE_P self)"
    and "length (normalize_target_value rht y) = k"
    and "repeat_steps j (\<lambda>(s', self'). update_weights s' self' X y lr rht) (s, self) = Inr (s', self')"
    and "list_all (\<lambda>p. length p = k) (step_predictions j s self X y lr rht)"
  shows "length (step_predictions j s self X y lr rht) = j
       \<and> (\<forall>i<k. faded_at (fMAE_P self') i =
            foldl (\<lambda>f p. fadd (fmul (Fin 0.95) f)
                            (fabs (fsub (normalize_target_value rht y ! i) (p ! i))))
              (faded_at (fMAE_P self) i) (step_predictions j s self X y lr rht))"
  using assms(1,2,4,5)
proof (induction j arbitrary: s self)
  case 0
  then show ?case by simp
next
  case (Suc j)
  from Suc.prems(3) obtain s1 self1 where
    up: "update_weights s self X y lr rht = Inr (s1, self1)"
    and rest: "repeat_steps j (\<lambda>(s', self'). update_weights s' self' X y lr rht) (s1, self1)
                 = Inr (s', self')"
    by (auto simp: bnd_eq_Inr)
  from adaptive_update_fade [OF Suc.prems(1) up] obtain p e where
    pe: "predict s self (normalize_sample rht X) = Inr p"
        "np_binop fsub (normalize_target_value rht y) p = Inr e"
        "fade (fMAE_P self) (np_abs e) = Inr (fMAE_P self1)"
        "node_class self1 = node_class self"
    by blast
  have preds: "step_predictions (Suc j) s self X y lr rht
                 = p # step_predictions j s1 self1 X y lr rht"
    using pe(1) up by simp
  with Suc.prems(4) have lp: "length p = k"
    and all: "list_all (\<lambda>p. length p = k) (step_predictions j s1 self1 X y lr rht)"
    by simp_all
  from fade_explicit [OF Suc.prems(2) assms(3) lp pe(2,3)]
  have f1: "faded_for k (fMAE_P self1)"
    and one: "\<forall>i<k. faded_at (fMAE_P self1) i =
       fadd (fmul (Fin 0.95) (faded_at (fMAE_P self) i))
         (fabs (fsub (normalize_target_value rht y ! i) (p ! i)))"
    by simp_all
  from Suc.prems(1) pe(4) have ad1: "is_adaptive (node_class self1)" by simp
  from Suc.IH [OF ad1 f1 rest all] one show ?case
    unfolding preds by simp
qed

lemma call_predictions_steps:
  assumes "learn_from_instance s self X y w rht = Inr (s', self')"
  shows "\<exists>s0 self0 lr k self3.
      create_weights s self X y = Inr (s0, self0)
    \<and> py_int w = Inr k
    \<and> repeat_steps (nat k) (\<lambda>(s', self'). update_weights s' self' X y lr rht)
         (s0, self0\<lparr>stats := stats self'\<rparr>) = Inr (s', self3)
    \<and> fMAE_P self3 = fMAE_P self'
    \<and> call_predictions s self X y w rht =
          step_predictions (nat k) s0 (self0\<lparr>stats := stats self'\<rparr>) X y lr rht"
proof -
  from learn_from_instance_Inr [OF assms] obtain s0 self0 lr k self3 where
    h: "create_weights s self X y = Inr (s0, self0)"
       "learning_ratio rht (add_weight (stats self) w) = Inr lr"
       "add_targets (add_weight (stats self) w) y w = Inr (stats self')"
       "py_int w = Inr k"
       "repeat_steps (nat k) (\<lambda>(s', self'). update_weights s' self' X y lr rht)
         (s0, self0\<lparr>stats := stats self'\<rparr>) = Inr (s', self3)"
       "finish_learning (node_class self) rht X y w (s', self3) = Inr (s', self')"
    by blast
  from h(1) have st: "stats self0 = stats self"
    using create_weights_frame by simp
  have "call_predictions s self X y w rht =
          step_predictions (nat k) s0 (self0\<lparr>stats := stats self'\<rparr>) X y lr rht"
    using h(1,2,3,4) st by (simp add: call_predictions_def)
  moreover from finish_learning_frame [OF h(6)] have "fMAE_P self3 = fMAE_P self'" by simp
  ultimately show ?thesis using h(1,4,5) by blast
qed

lemma step_predictions_numeral:
  "step_predictions (numeral n) s self X y lr rht =
   step_predictions (Suc (pred_numeral n)) s self X y lr rht"
  by (simp add: numeral_eq_Suc)

section \<open>Normalization of the rows\<close>

text \<open>
  C2, as the code has it. The claim says that a row whose absolute values sum to zero is
  left unchanged. The loop has no such guard, in either class: every row is divided by
  the sum of its absolute values. A row whose sum is zero holds only zeros, and numpy's
  0 / 0 makes each of its entries NaN; no exception is raised.
\<close>

theorem normalize_divides_every_row:
  assumes "perceptron_weight self = Some a"
  shows "normalize_perceptron_weights s self =
           Inr (s\<lparr>cells := (cells s)
                  (a := (cells s a)\<lparr>mat_rows := map divide_row (mat_rows (cells s a))\<rparr>)\<rparr>)
         \<and> (\<forall>row. np_sum (np_abs row) = Fin 0 \<longrightarrow> divide_row row = replicate (length row) NaN)"
  using assms by (simp add: active_normalize_Some divide_row_zero)

theorem normalize_divides_every_row_witness:
  "rows_after (normalize_perceptron_weights
      (single_store \<lparr>mat_cols = 2, mat_rows = [[Fin 0, Fin 0], [Fin 1, Fin (- 3)]]\<rparr>)
      (node_at InactivePerceptronMT (Some 0))) 0
   = Inr [[NaN, NaN], [Fin (1 / 4), Fin (- 3 / 4)]]"
  using normalize_divides_every_row [of "node_at InactivePerceptronMT (Some 0)" 0
      "single_store \<lparr>mat_cols = 2, mat_rows = [[Fin 0, Fin 0], [Fin 1, Fin (- 3)]]\<rparr>"]
  by (simp add: rows_after_def node_at_def base_init_def single_store_def divide_row_def
      np_abs_def)

text \<open>
  C2, as the claim states it, fails: the row of two zeros, whose absolute values sum to
  zero, is not left unchanged but becomes a row of two NaN, in both classes.
\<close>

theorem zero_row_not_left_unchanged:
  "rows_after (active_normalize_perceptron_weights
      (single_store \<lparr>mat_cols = 2, mat_rows = [[Fin 0, Fin 0]]\<rparr>)
      (node_at ActivePerceptronMT (Some 0))) 0 = Inr [[NaN, NaN]]
   \<and> rows_after (inactive_normalize_perceptron_weights
      (single_store \<lparr>mat_cols = 2, mat_rows = [[Fin 0, Fin 0]]\<rparr>)
      (node_at InactivePerceptronMT (Some 0))) 0 = Inr [[NaN, NaN]]
   \<and> np_sum (np_abs [Fin 0, Fin 0]) = Fin 0"
  by (simp add: rows_after_def node_at_def base_init_def single_store_def
      active_normalize_perceptron_weights_def inactive_normalize_perceptron_weights_def
      Let_def np_abs_def)

section \<open>The rows of the weights after creation and after a gradient step\<close>

text \<open>
  C1. When \<^verbatim>\<open>learn_from_instance\<close> creates the weights, and after every call of
  \<^verbatim>\<open>update_weights\<close>, in each of the four classes: every row of the weight matrix whose
  raw absolute values (those of the matrix drawn, or of the matrix after the gradient has
  been added) sum to a number other than zero has absolute values that sum to one.
\<close>

theorem weight_rows_l1_normalized:
  "(perceptron_weight self = None \<longrightarrow>
      (\<exists>s' self' a. create_weights s self X y = Inr (s', self')
         \<and> perceptron_weight self' = Some a
         \<and> rows_normalized_from
              (mat_rows (fst (rng_uniform (random_state self) (length y) (length X + 1))))
              (mat_rows (cells s' a))))
   \<and> (\<forall>s' self'. update_weights s self X y lr rht = Inr (s', self') \<longrightarrow>
        (\<exists>a p e raw. perceptron_weight self' = Some a
           \<and> predict s self (normalize_sample rht X) = Inr p
           \<and> np_binop fsub (normalize_target_value rht y) p = Inr e
           \<and> np_iadd2 (cells s a) (scale lr (np_outer e (normalize_sample rht X))) = Inr raw
           \<and> rows_normalized_from (mat_rows raw) (mat_rows (cells s' a))))"
proof (intro conjI impI allI)
  assume "perceptron_weight self = None"
  then show "\<exists>s' self' a. create_weights s self X y = Inr (s', self')
         \<and> perceptron_weight self' = Some a
         \<and> rows_normalized_from
              (mat_rows (fst (rng_uniform (random_state self) (length y) (length X + 1))))
              (mat_rows (cells s' a))"
    by (simp add: active_create_weights_None Let_def rows_normalized_from_divide)
next
  fix s' self'
  assume "update_weights s self X y lr rht = Inr (s', self')"
  from update_weights_weights [OF this] obtain a p e raw where
    h: "perceptron_weight self = Some a" "perceptron_weight self' = Some a"
       "np_matmul (cells s a) (normalize_sample rht X) = Inr p"
       "np_binop fsub (normalize_target_value rht y) p = Inr e"
       "np_iadd2 (cells s a) (scale lr (np_outer e (normalize_sample rht X))) = Inr raw"
       "s' = s\<lparr>cells := (cells s)(a := raw\<lparr>mat_rows := map divide_row (mat_rows raw)\<rparr>)\<rparr>"
    by blast
  have "predict s self (normalize_sample rht X) = Inr p"
    using h(1,3) by (simp add: active_predict_def)
  moreover have "rows_normalized_from (mat_rows raw) (mat_rows (cells s' a))"
    using h(6) by (simp add: rows_normalized_from_divide)
  ultimately show "\<exists>a p e raw. perceptron_weight self' = Some a
           \<and> predict s self (normalize_sample rht X) = Inr p
           \<and> np_binop fsub (normalize_target_value rht y) p = Inr e
           \<and> np_iadd2 (cells s a) (scale lr (np_outer e (normalize_sample rht X))) = Inr raw
           \<and> rows_normalized_from (mat_rows raw) (mat_rows (cells s' a))"
    using h(2,4,5) by blast
qed

theorem weight_rows_l1_normalized_witness:
  "weights_of (create_weights (single_store \<lparr>mat_cols = 0, mat_rows = []\<rparr>)
        (node_at ActiveAdaptiveMT None) [Fin 2] [Fin 3])
     = Inr [[Fin (1 / 2), Fin (1 / 2)]]
   \<and> np_sum (np_abs [Fin (1 / 2), Fin (1 / 2)]) = Fin 1
   \<and> weights_of (update_weights
        (single_store \<lparr>mat_cols = 2, mat_rows = [[Fin (1 / 2), Fin (1 / 2)]]\<rparr>)
        (node_at InactivePerceptronMT (Some 0)) [Fin 2] [Fin 3] (Fin (1 / 10)) example_rht)
     = Inr [[Fin (16 / 29), Fin (13 / 29)]]
   \<and> np_sum (np_abs [Fin (16 / 29), Fin (13 / 29)]) = Fin 1"
  using weight_rows_l1_normalized [of "node_at ActiveAdaptiveMT None"
      "single_store \<lparr>mat_cols = 0, mat_rows = []\<rparr>" "[Fin 2]" "[Fin 3]"]
    weight_rows_l1_normalized [of "node_at InactivePerceptronMT (Some 0)"
      "single_store \<lparr>mat_cols = 2, mat_rows = [[Fin (1 / 2), Fin (1 / 2)]]\<rparr>"
      "[Fin 2]" "[Fin 3]" "Fin (1 / 10)" example_rht]
  by (simp add: weights_of_def update_weights_def active_update_weights_def active_predict_def
      np_matmul_def np_dot_def np_binop_def fsub_def iadd_weights_def np_iadd2_def scale_def
      np_outer_def bcast_to_def active_normalize_Some divide_row_def np_abs_def
      example_rht_def node_at_def base_init_def single_store_def Let_def
      active_create_weights_None rng_uniform_def example_rng_def)

section \<open>Prediction\<close>

text \<open>
  C9. \<^verbatim>\<open>predict\<close> on a node whose weights are not yet created does not return a vector:
  it raises (the ValueError of \<^verbatim>\<open>np.matmul\<close> on \<open>None\<close>). With weights, it returns
  \<^verbatim>\<open>np.matmul\<close> of the matrix and its argument; for a matrix and an argument of finite
  numbers whose shapes fit, that is the matrix-vector product, entry \<open>i\<close> being the sum
  over \<open>j\<close> of \<open>W\<^sub>i\<^sub>j * x\<^sub>j\<close>.
\<close>

theorem predict_needs_weights:
  "(perceptron_weight self = None \<longrightarrow> predict s self x = Inl ValueError)
   \<and> (\<forall>a. perceptron_weight self = Some a \<longrightarrow> predict s self x = np_matmul (cells s a) x)
   \<and> (\<forall>a Wr xs. perceptron_weight self = Some a
         \<and> cells s a = \<lparr>mat_cols = length xs, mat_rows = map (map Fin) Wr\<rparr>
         \<and> list_all (\<lambda>row. length row = length xs) Wr \<longrightarrow>
       predict s self (map Fin xs) = Inr (map (\<lambda>row. Fin (\<Sum>j<length xs. row ! j * xs ! j)) Wr))"
proof (intro conjI allI impI)
  show "predict s self x = Inl ValueError" if "perceptron_weight self = None"
    using that by (simp add: active_predict_def)
  show "predict s self x = np_matmul (cells s a) x" if "perceptron_weight self = Some a" for a
    using that by (simp add: active_predict_def)
  show "predict s self (map Fin xs) = Inr (map (\<lambda>row. Fin (\<Sum>j<length xs. row ! j * xs ! j)) Wr)"
    if "perceptron_weight self = Some a
         \<and> cells s a = \<lparr>mat_cols = length xs, mat_rows = map (map Fin) Wr\<rparr>
         \<and> list_all (\<lambda>row. length row = length xs) Wr" for a Wr xs
    using that by (simp add: active_predict_def np_matmul_def np_dot_Fin list_all_iff)
qed

theorem predict_needs_weights_witness:
  "predict (single_store \<lparr>mat_cols = 2, mat_rows = [[Fin (1 / 2), Fin (1 / 2)]]\<rparr>)
      (node_at ActivePerceptronMT None) [Fin 2, Fin 1] = Inl ValueError
   \<and> predict (single_store \<lparr>mat_cols = 2, mat_rows = [[Fin (1 / 2), Fin (1 / 2)]]\<rparr>)
      (node_at InactiveAdaptiveMT (Some 0)) [Fin 2, Fin 1] = Inr [Fin (3 / 2)]"
  using predict_needs_weights [of "node_at ActivePerceptronMT None"
      "single_store \<lparr>mat_cols = 2, mat_rows = [[Fin (1 / 2), Fin (1 / 2)]]\<rparr>" "[Fin 2, Fin 1]"]
    predict_needs_weights [of "node_at InactiveAdaptiveMT (Some 0)"
      "single_store \<lparr>mat_cols = 2, mat_rows = [[Fin (1 / 2), Fin (1 / 2)]]\<rparr>" "[Fin 2, Fin 1]"]
  by (simp add: node_at_def base_init_def single_store_def np_matmul_def np_dot_def)

section \<open>Construction from a parent node\<close>

text \<open>
  C10. A constructor given a parent that is a node of one of the four classes raises
  AttributeError, in each class, before any weight is copied: it reads the attribute
  \<^verbatim>\<open>perceptron_weights\<close> of the parent, and the classes assign \<^verbatim>\<open>perceptron_weight\<close>.
  The base classes are not among the sources; the statement supposes that they provide
  no attribute \<^verbatim>\<open>perceptron_weights\<close> either.
\<close>

theorem construct_from_node_parent_fails:
  assumes "base ''perceptron_weights'' = None"
  shows "construct cls s initial_stats (Some (node_as_object base parent)) g = Inl AttributeError"
  using assms
  by (cases cls)
    (simp_all add: construct_def active_init_def inactive_init_def active_adaptive_init_def
      inactive_adaptive_init_def getattr_def node_as_object_def Let_def)

theorem construct_from_node_parent_fails_witness:
  "construct InactiveAdaptiveMT (single_store \<lparr>mat_cols = 2, mat_rows = [[Fin (1 / 2), Fin (1 / 2)]]\<rparr>)
      empty_stats (Some (node_as_object (\<lambda>name. None) (node_at ActivePerceptronMT (Some 0))))
      example_rng = Inl AttributeError"
  using construct_from_node_parent_fails [of "\<lambda>name. None" InactiveAdaptiveMT
      "single_store \<lparr>mat_cols = 2, mat_rows = [[Fin (1 / 2), Fin (1 / 2)]]\<rparr>" empty_stats
      "node_at ActivePerceptronMT (Some 0)" example_rng]
  by simp

section \<open>The gradient steps of one call\<close>

text \<open>
  C3. For an instance of weight \<open>r \<ge> 0\<close>, in each of the four classes,
  \<^verbatim>\<open>learn_from_instance\<close> takes exactly \<open>\<lfloor>r\<rfloor>\<close> gradient steps, one after the other with
  the same arguments (none when \<open>r < 1\<close>; the fraction of \<open>r\<close> is dropped), while the
  statistics it leaves have the whole weight \<open>r\<close> added: a node with no statistics ends
  with the count \<open>r\<close>, the sums \<open>r * y\<^sub>i\<close> and the sums of squares \<open>r * y\<^sub>i * y\<^sub>i\<close>; a node
  with the count \<open>c\<close>, the sums \<open>a\<^sub>i\<close> and the sums of squares \<open>b\<^sub>i\<close> ends with \<open>c + r\<close>,
  \<open>a\<^sub>i + r * y\<^sub>i\<close> and \<open>b\<^sub>i + r * y\<^sub>i * y\<^sub>i\<close>.
\<close>

theorem gradient_steps_floor_weight:
  assumes "0 \<le> r"
  shows "learn_from_instance s self X y (Fin r) rht =
     bnd (create_weights s self X y) (\<lambda>(s0, self0).
     bnd (learning_ratio rht (add_weight (stats self0) (Fin r))) (\<lambda>lr.
     bnd (add_targets (add_weight (stats self0) (Fin r)) y (Fin r)) (\<lambda>st.
     bnd (repeat_steps (nat \<lfloor>r\<rfloor>) (\<lambda>(s', self'). update_weights s' self' X y lr rht)
            (s0, self0\<lparr>stats := st\<rparr>))
       (finish_learning (node_class self) rht X y (Fin r)))))
   \<and> (\<forall>s' self'. learn_from_instance s self X y (Fin r) rht = Inr (s', self') \<longrightarrow>
         add_targets (add_weight (stats self) (Fin r)) y (Fin r) = Inr (stats self'))
   \<and> (\<forall>s' self' ys. stats self = empty_stats \<and> y = map Fin ys
         \<and> learn_from_instance s self X y (Fin r) rht = Inr (s', self') \<longrightarrow>
         stats self' = \<lparr>stats_0 = Some (Fin r),
                         stats_1 = Some (map (\<lambda>v. Fin (r * v)) ys),
                         stats_2 = Some (map (\<lambda>v. Fin (r * v * v)) ys)\<rparr>)
   \<and> (\<forall>s' self' ys c a b.
         stats self = \<lparr>stats_0 = Some (Fin c), stats_1 = Some (map Fin a),
                        stats_2 = Some (map Fin b)\<rparr>
         \<and> length a = length ys \<and> length b = length ys \<and> y = map Fin ys
         \<and> learn_from_instance s self X y (Fin r) rht = Inr (s', self') \<longrightarrow>
         stats self' = \<lparr>stats_0 = Some (Fin (c + r)),
                         stats_1 = Some (map Fin (map2 (\<lambda>u v. u + r * v) a ys)),
                         stats_2 = Some (map Fin (map2 (\<lambda>u v. u + r * v * v) b ys))\<rparr>)"
proof (intro conjI allI impI)
  show "learn_from_instance s self X y (Fin r) rht =
     bnd (create_weights s self X y) (\<lambda>(s0, self0).
     bnd (learning_ratio rht (add_weight (stats self0) (Fin r))) (\<lambda>lr.
     bnd (add_targets (add_weight (stats self0) (Fin r)) y (Fin r)) (\<lambda>st.
     bnd (repeat_steps (nat \<lfloor>r\<rfloor>) (\<lambda>(s', self'). update_weights s' self' X y lr rht)
            (s0, self0\<lparr>stats := st\<rparr>))
       (finish_learning (node_class self) rht X y (Fin r)))))"
    unfolding learn_from_instance_unfold py_int_nonneg [OF assms] bnd_Inr ..
next
  fix s' self'
  assume "learn_from_instance s self X y (Fin r) rht = Inr (s', self')"
  then show "add_targets (add_weight (stats self) (Fin r)) y (Fin r) = Inr (stats self')"
    using learn_from_instance_Inr by blast
next
  fix s' self' ys
  assume a: "stats self = empty_stats \<and> y = map Fin ys
         \<and> learn_from_instance s self X y (Fin r) rht = Inr (s', self')"
  then have "add_targets (add_weight (stats self) (Fin r)) (map Fin ys) (Fin r) = Inr (stats self')"
    using learn_from_instance_Inr by blast
  moreover have "stats_1 (add_weight (stats self) (Fin r)) = None"
    using a by (simp add: add_weight_def empty_stats_def)
  ultimately show "stats self' = \<lparr>stats_0 = Some (Fin r),
                         stats_1 = Some (map (\<lambda>v. Fin (r * v)) ys),
                         stats_2 = Some (map (\<lambda>v. Fin (r * v * v)) ys)\<rparr>"
    using a by (simp add: add_targets_fresh add_weight_def empty_stats_def)
next
  fix s' self' ys c a b
  assume a: "stats self = \<lparr>stats_0 = Some (Fin c), stats_1 = Some (map Fin a),
                        stats_2 = Some (map Fin b)\<rparr>
         \<and> length a = length ys \<and> length b = length ys \<and> y = map Fin ys
         \<and> learn_from_instance s self X y (Fin r) rht = Inr (s', self')"
  then have "add_targets (add_weight (stats self) (Fin r)) (map Fin ys) (Fin r) = Inr (stats self')"
    using learn_from_instance_Inr by blast
  moreover have "stats_1 (add_weight (stats self) (Fin r)) = Some (map Fin a)"
    "stats_2 (add_weight (stats self) (Fin r)) = Some (map Fin b)"
    using a by (simp_all add: add_weight_def)
  ultimately show "stats self' = \<lparr>stats_0 = Some (Fin (c + r)),
                         stats_1 = Some (map Fin (map2 (\<lambda>u v. u + r * v) a ys)),
                         stats_2 = Some (map Fin (map2 (\<lambda>u v. u + r * v * v) b ys))\<rparr>"
    using a by (simp add: add_targets_accumulate add_weight_def)
qed

theorem gradient_steps_floor_weight_witness:
  "map_sum id (\<lambda>(s', self'). (stats self', mat_rows (cells s' 0)))
     (learn_from_instance
        (single_store \<lparr>mat_cols = 2, mat_rows = [[Fin (1 / 2), Fin (1 / 2)]]\<rparr>)
        (node_at InactivePerceptronMT (Some 0)) [Fin 2] [Fin 3] (Fin (17 / 10)) example_rht)
   = Inr (\<lparr>stats_0 = Some (Fin (17 / 10)), stats_1 = Some [Fin (51 / 10)],
           stats_2 = Some [Fin (153 / 10)]\<rparr>,
          [[Fin (16 / 29), Fin (13 / 29)]])
   \<and> map_sum id (\<lambda>(s', self'). (stats self', mat_rows (cells s' 0)))
     (learn_from_instance
        (single_store \<lparr>mat_cols = 2, mat_rows = [[Fin (1 / 2), Fin (1 / 2)]]\<rparr>)
        ((node_at ActivePerceptronMT (Some 0))
           \<lparr>stats := \<lparr>stats_0 = Some (Fin 2), stats_1 = Some [Fin 1], stats_2 = Some [Fin 5]\<rparr>\<rparr>)
        [Fin 2] [Fin 3] (Fin (17 / 10)) example_rht)
   = Inr (\<lparr>stats_0 = Some (Fin (37 / 10)), stats_1 = Some [Fin (61 / 10)],
           stats_2 = Some [Fin (203 / 10)]\<rparr>,
          [[Fin (16 / 29), Fin (13 / 29)]])"
proof -
  let ?s = "single_store \<lparr>mat_cols = 2, mat_rows = [[Fin (1 / 2), Fin (1 / 2)]]\<rparr>"
  let ?n = "(node_at ActivePerceptronMT (Some 0))
           \<lparr>stats := \<lparr>stats_0 = Some (Fin 2), stats_1 = Some [Fin 1], stats_2 = Some [Fin 5]\<rparr>\<rparr>"
  have r: "(0::real) \<le> 17 / 10" by simp
  have one: "nat \<lfloor>17 / 10 :: real\<rfloor> = Suc 0" by simp
  have weights: "map_sum id (\<lambda>(s', self'). mat_rows (cells s' 0))
     (learn_from_instance ?s (node_at InactivePerceptronMT (Some 0)) [Fin 2] [Fin 3]
        (Fin (17 / 10)) example_rht) = Inr [[Fin (16 / 29), Fin (13 / 29)]]"
    "map_sum id (\<lambda>(s', self'). mat_rows (cells s' 0))
     (learn_from_instance ?s ?n [Fin 2] [Fin 3] (Fin (17 / 10)) example_rht)
       = Inr [[Fin (16 / 29), Fin (13 / 29)]]"
    unfolding gradient_steps_floor_weight [OF r, THEN conjunct1] one
    by (simp_all add: active_create_weights_def learning_ratio_def add_weight_def
        add_targets_def np_iadd_def
        finish_learning_def update_weights_def active_update_weights_def active_predict_def
        np_matmul_def np_dot_def np_binop_def fsub_def iadd_weights_def np_iadd2_def scale_def
        np_outer_def bcast_to_def active_normalize_Some divide_row_def np_abs_def
        example_rht_def node_at_def base_init_def single_store_def empty_stats_def Let_def)
  from weights(1) obtain s1 n1 where
    run1: "learn_from_instance ?s (node_at InactivePerceptronMT (Some 0)) [Fin 2] [Fin 3]
        (Fin (17 / 10)) example_rht = Inr (s1, n1)"
    by (cases "learn_from_instance ?s (node_at InactivePerceptronMT (Some 0)) [Fin 2] [Fin 3]
        (Fin (17 / 10)) example_rht") auto
  from weights(2) obtain s2 n2 where
    run2: "learn_from_instance ?s ?n [Fin 2] [Fin 3] (Fin (17 / 10)) example_rht = Inr (s2, n2)"
    by (cases "learn_from_instance ?s ?n [Fin 2] [Fin 3] (Fin (17 / 10)) example_rht") auto
  have e: "stats (node_at InactivePerceptronMT (Some 0)) = empty_stats"
    by (simp add: node_at_def base_init_def)
  from gradient_steps_floor_weight [OF r, THEN conjunct2, THEN conjunct2, THEN conjunct1,
      rule_format, where s = ?s and self = "node_at InactivePerceptronMT (Some 0)"
        and X = "[Fin 2]" and y = "[Fin 3]" and ys = "[3]" and rht = example_rht
        and s' = s1 and self' = n1] e run1
  have st1: "stats n1 = \<lparr>stats_0 = Some (Fin (17 / 10)), stats_1 = Some [Fin (51 / 10)],
           stats_2 = Some [Fin (153 / 10)]\<rparr>"
    by simp
  from gradient_steps_floor_weight [OF r, THEN conjunct2, THEN conjunct2, THEN conjunct2,
      rule_format, where s = ?s and self = ?n and X = "[Fin 2]" and y = "[Fin 3]"
        and c = 2 and a = "[1]" and b = "[5]" and ys = "[3]" and rht = example_rht
        and s' = s2 and self' = n2] run2
  have st2: "stats n2 = \<lparr>stats_0 = Some (Fin (37 / 10)), stats_1 = Some [Fin (61 / 10)],
           stats_2 = Some [Fin (203 / 10)]\<rparr>"
    by simp
  from weights run1 run2 st1 st2 show ?thesis by simp
qed

section \<open>The learning rate of one call\<close>

text \<open>
  C4. In a call of \<^verbatim>\<open>learn_from_instance\<close> that returns, the learning rate is
  \<^verbatim>\<open>learning_ratio_perceptron\<close> when \<^verbatim>\<open>learning_ratio_const\<close> is set, and otherwise
  \<^verbatim>\<open>learning_ratio_perceptron / (1 + count * learning_ratio_decay)\<close>, where \<open>count\<close> is the
  count the call leaves in the statistics: the count before the call plus the weight of
  the instance. Every gradient step of the call is taken with this one rate.
\<close>

theorem learning_rate_of_call:
  assumes "learn_from_instance s self X y w rht = Inr (s', self')"
  shows "\<exists>c lr k s0 self0.
      stats_0 (stats self') = Some c
    \<and> c = (case stats_0 (stats self) of None \<Rightarrow> w | Some c0 \<Rightarrow> fadd c0 w)
    \<and> Inr lr = (if learning_ratio_const rht then Inr (learning_ratio_perceptron rht)
                else py_truediv (learning_ratio_perceptron rht)
                       (fadd (Fin 1) (fmul c (learning_ratio_decay rht))))
    \<and> create_weights s self X y = Inr (s0, self0)
    \<and> py_int w = Inr k
    \<and> bnd (repeat_steps (nat k) (\<lambda>(s', self'). update_weights s' self' X y lr rht)
              (s0, self0\<lparr>stats := stats self'\<rparr>))
         (finish_learning (node_class self) rht X y w) = Inr (s', self')"
proof -
  from learn_from_instance_Inr [OF assms] obtain s0 self0 lr k self3 where
    h: "create_weights s self X y = Inr (s0, self0)"
       "learning_ratio rht (add_weight (stats self) w) = Inr lr"
       "add_targets (add_weight (stats self) w) y w = Inr (stats self')"
       "py_int w = Inr k"
       "repeat_steps (nat k) (\<lambda>(s', self'). update_weights s' self' X y lr rht)
         (s0, self0\<lparr>stats := stats self'\<rparr>) = Inr (s', self3)"
       "finish_learning (node_class self) rht X y w (s', self3) = Inr (s', self')"
    by blast
  let ?c = "case stats_0 (stats self) of None \<Rightarrow> w | Some c0 \<Rightarrow> fadd c0 w"
  have c: "stats_0 (stats self') = Some ?c"
    using add_targets_stats_0 [OF h(3)] by (simp add: add_weight_stats_0)
  have lr: "Inr lr = (if learning_ratio_const rht then Inr (learning_ratio_perceptron rht)
                else py_truediv (learning_ratio_perceptron rht)
                       (fadd (Fin 1) (fmul ?c (learning_ratio_decay rht))))"
    using h(2) unfolding learning_ratio_def add_weight_stats_0 by (simp split: if_splits)
  have "bnd (repeat_steps (nat k) (\<lambda>(s', self'). update_weights s' self' X y lr rht)
              (s0, self0\<lparr>stats := stats self'\<rparr>))
         (finish_learning (node_class self) rht X y w) = Inr (s', self')"
    using h(5,6) by simp
  with c lr h(1,4) show ?thesis by blast
qed

theorem learning_rate_of_call_witness:
  "map_sum id (\<lambda>(s', self'). (stats_0 (stats self'), mat_rows (cells s' 0)))
     (learn_from_instance
        (single_store \<lparr>mat_cols = 2, mat_rows = [[Fin (1 / 2), Fin (1 / 2)]]\<rparr>)
        (node_at InactivePerceptronMT (Some 0)) [Fin 2] [Fin 3] (Fin 1) decaying_rht)
   = Inr (Some (Fin 1), [[Fin (1601 / 2902), Fin (1301 / 2902)]])
   \<and> py_truediv (Fin (1 / 10)) (fadd (Fin 1) (fmul (Fin 1) (Fin (1 / 1000))))
       = Inr (Fin (100 / 1001))"
proof -
  let ?s = "single_store \<lparr>mat_cols = 2, mat_rows = [[Fin (1 / 2), Fin (1 / 2)]]\<rparr>"
  let ?n = "node_at InactivePerceptronMT (Some 0)"
  let ?s' = "\<lparr>cells = (\<lambda>a. \<lparr>mat_cols = 2, mat_rows = [[Fin (1 / 2), Fin (1 / 2)]]\<rparr>)
              (0 := \<lparr>mat_cols = 2, mat_rows = [[Fin (1601 / 2902), Fin (1301 / 2902)]]\<rparr>),
             next_free = 1\<rparr>"
  let ?n' = "?n\<lparr>stats := \<lparr>stats_0 = Some (Fin 1), stats_1 = Some [Fin 3],
                            stats_2 = Some [Fin 9]\<rparr>\<rparr>"
  have run: "learn_from_instance ?s ?n [Fin 2] [Fin 3] (Fin 1) decaying_rht = Inr (?s', ?n')"
    by (simp add: learn_from_instance_unfold py_int_def active_create_weights_def
        learning_ratio_def py_truediv_def add_weight_def add_targets_def
        finish_learning_def update_weights_def active_update_weights_def active_predict_def
        np_matmul_def np_dot_def np_binop_def fsub_def iadd_weights_def np_iadd2_def scale_def
        np_outer_def bcast_to_def active_normalize_Some divide_row_def np_abs_def
        decaying_rht_def example_rht_def node_at_def base_init_def single_store_def
        empty_stats_def Let_def)
  from learning_rate_of_call [OF run] obtain c lr where
    "stats_0 (stats ?n') = Some c"
    "c = (case stats_0 (stats ?n) of None \<Rightarrow> Fin 1 | Some c0 \<Rightarrow> fadd c0 (Fin 1))"
    "Inr lr = (if learning_ratio_const decaying_rht then Inr (learning_ratio_perceptron decaying_rht)
                else py_truediv (learning_ratio_perceptron decaying_rht)
                       (fadd (Fin 1) (fmul c (learning_ratio_decay decaying_rht))))"
    by blast
  then have "py_truediv (Fin (1 / 10)) (fadd (Fin 1) (fmul (Fin 1) (Fin (1 / 1000)))) = Inr lr"
    by (simp add: decaying_rht_def example_rht_def)
  moreover have "py_truediv (Fin (1 / 10)) (fadd (Fin 1) (fmul (Fin 1) (Fin (1 / 1000))))
       = Inr (Fin (100 / 1001))"
    by (simp add: py_truediv_def)
  ultimately show ?thesis
    using run by simp
qed

section \<open>The total weight\<close>

text \<open>
  C6. \<^verbatim>\<open>total_weight\<close> of a node with empty statistics is 0. After the node has
  learned from instances of weights \<open>r\<^sub>1, \<dots>, r\<^sub>n\<close>, starting with empty statistics, it is
  their sum. One more instance of weight \<open>r \<ge> 0\<close> never lowers it. The method is the one
  the source defines in the active class; it reads the statistics only, which the two
  \<^verbatim>\<open>learn_from_instance\<close> methods keep alike.
\<close>

theorem total_weight_cumulative:
  "(stats self = empty_stats \<longrightarrow> total_weight self = Inr (Fin 0))
   \<and> (\<forall>s' self'. stats self = empty_stats
        \<and> learn_all s self (map (\<lambda>(X, y, r, rht). (X, y, Fin r, rht)) obs) = Inr (s', self') \<longrightarrow>
        total_weight self' = Inr (Fin (\<Sum>(X, y, r, rht)\<leftarrow>obs. r)))
   \<and> (\<forall>s1 self1 s2 self2 X y r rht c. total_weight self1 = Inr (Fin c) \<and> 0 \<le> r
        \<and> learn_from_instance s1 self1 X y (Fin r) rht = Inr (s2, self2) \<longrightarrow>
        (\<exists>c'. total_weight self2 = Inr (Fin c') \<and> c \<le> c'))"
proof (intro conjI allI impI)
  show "total_weight self = Inr (Fin 0)" if "stats self = empty_stats"
    using that by (simp add: total_weight_def)
next
  fix s' self'
  assume a: "stats self = empty_stats
        \<and> learn_all s self (map (\<lambda>(X, y, r, rht). (X, y, Fin r, rht)) obs) = Inr (s', self')"
  show "total_weight self' = Inr (Fin (\<Sum>(X, y, r, rht)\<leftarrow>obs. r))"
  proof (cases obs)
    case Nil
    with a show ?thesis by (auto simp: total_weight_def)
  next
    case (Cons ob rest)
    obtain X y r rht where ob: "ob = (X, y, r, rht)" by (cases ob)
    from a Cons ob obtain s1 self1 where
      step: "learn_from_instance s self X y (Fin r) rht = Inr (s1, self1)"
      and more: "learn_all s1 self1 (map (\<lambda>(X, y, r, rht). (X, y, Fin r, rht)) rest) = Inr (s', self')"
      by (auto simp: bnd_eq_Inr)
    from learn_from_instance_stats_0 [OF step] a
    have "stats_0 (stats self1) = Some (Fin r)" by (simp add: empty_stats_def)
    from learn_all_count [OF more this]
    have c: "stats_0 (stats self') = Some (Fin (r + (\<Sum>(X, y, r, rht)\<leftarrow>rest. r)))" .
    then have "stats self' \<noteq> empty_stats" by (auto simp: empty_stats_def)
    with c Cons ob show ?thesis by (simp add: total_weight_def)
  qed
next
  fix s1 self1 s2 self2 X y r rht c
  assume a: "total_weight self1 = Inr (Fin c) \<and> 0 \<le> r
        \<and> learn_from_instance s1 self1 X y (Fin r) rht = Inr (s2, self2)"
  then have step: "learn_from_instance s1 self1 X y (Fin r) rht = Inr (s2, self2)" by simp
  note after = learn_from_instance_stats_0 [OF step]
  show "\<exists>c'. total_weight self2 = Inr (Fin c') \<and> c \<le> c'"
  proof (cases "stats self1 = empty_stats")
    case True
    with a have "c = 0" by (simp add: total_weight_def)
    moreover from after True have "stats_0 (stats self2) = Some (Fin r)"
      by (simp add: empty_stats_def)
    moreover from this have "stats self2 \<noteq> empty_stats" by (auto simp: empty_stats_def)
    ultimately show ?thesis using a by (simp add: total_weight_def)
  next
    case False
    with a have "stats_0 (stats self1) = Some (Fin c)"
      by (simp add: total_weight_def split: option.splits)
    with after have c': "stats_0 (stats self2) = Some (Fin (c + r))" by simp
    then have "stats self2 \<noteq> empty_stats" by (auto simp: empty_stats_def)
    with c' a show ?thesis by (simp add: total_weight_def)
  qed
qed

theorem total_weight_cumulative_witness:
  "total_weight (node_at ActiveAdaptiveMT None) = Inr (Fin 0)
   \<and> map_sum id (\<lambda>(s', self'). total_weight self')
        (learn_all (single_store \<lparr>mat_cols = 0, mat_rows = []\<rparr>) (node_at ActiveAdaptiveMT None)
           [([Fin 2], [Fin 3], Fin (1 / 2), example_rht), ([Fin 1], [Fin 1], Fin (1 / 4), example_rht)])
      = Inr (Inr (Fin (3 / 4)))"
proof -
  let ?s = "single_store \<lparr>mat_cols = 0, mat_rows = []\<rparr>"
  let ?n = "node_at ActiveAdaptiveMT None"
  let ?obs = "[([Fin 2], [Fin 3], 1 / 2, example_rht), ([Fin 1], [Fin 1], 1 / 4, example_rht)]"
  have e: "stats ?n = empty_stats"
    by (simp add: node_at_def base_init_def)
  have "\<exists>s' self'. learn_all ?s ?n (map (\<lambda>(X, y, r, rht). (X, y, Fin r, rht)) ?obs) = Inr (s', self')"
    by (simp add: learn_from_instance_unfold py_int_def active_create_weights_def
        learning_ratio_def add_weight_def add_targets_def np_iadd_def
        finish_learning_def active_normalize_Some get_dimensions_def rng_uniform_def alloc_def
        example_rht_def node_at_def base_init_def single_store_def
        empty_stats_def Let_def)
  then obtain s' self' where
    run: "learn_all ?s ?n (map (\<lambda>(X, y, r, rht). (X, y, Fin r, rht)) ?obs) = Inr (s', self')"
    by blast
  from total_weight_cumulative [of ?n ?s ?obs] e run
  have "total_weight ?n = Inr (Fin 0)" and "total_weight self' = Inr (Fin (3 / 4))"
    by simp_all
  with run show ?thesis by simp
qed

section \<open>Inactive nodes\<close>

text \<open>
  C8. \<^verbatim>\<open>learn_from_instance\<close> on a node of an inactive class leaves the attribute
  observers as they were, and leaves the same store of weights, statistics, weights,
  generator and faded errors (or raises the same exception) as the method of the active
  class with the same predictor does on the same state and instance.
\<close>

theorem inactive_learns_like_active:
  assumes "is_inactive (node_class self)"
  shows "predictor_state (learn_from_instance s self X y w rht) =
         predictor_state
           (learn_from_instance s (self\<lparr>node_class := activate (node_class self)\<rparr>) X y w rht)
       \<and> (\<forall>s' self'. learn_from_instance s self X y w rht = Inr (s', self') \<longrightarrow>
             attribute_observers self' = attribute_observers self)"
proof
  let ?a = "activate (node_class self)"
  let ?self = "self\<lparr>node_class := ?a\<rparr>"
  let ?step = "\<lambda>lr. (\<lambda>(s', self'). update_weights s' self' X y lr rht)"
  show "predictor_state (learn_from_instance s self X y w rht) =
         predictor_state (learn_from_instance s ?self X y w rht)"
  proof (cases "create_weights s self X y")
    case (Inl e)
    then show ?thesis
      unfolding learn_from_instance_unfold
      by (simp add: active_create_weights_class)
  next
    case (Inr st0)
    obtain s0 self0 where st0: "st0 = (s0, self0)" by (cases st0)
    from Inr st0 have cr: "active_create_weights s self X y = Inr (s0, self0)" by simp
    from create_weights_frame [OF cr] have cls0: "node_class self0 = node_class self"
      and stats0: "stats self0 = stats self" by simp_all
    have cr': "active_create_weights s ?self X y = Inr (s0, self0\<lparr>node_class := ?a\<rparr>)"
      by (simp add: active_create_weights_class cr)
    show ?thesis
    proof (cases "learning_ratio rht (add_weight (stats self0) w)")
      case (Inl e)
      then show ?thesis
        unfolding learn_from_instance_unfold by (simp add: cr cr')
    next
      case lr: (Inr lr)
      show ?thesis
      proof (cases "add_targets (add_weight (stats self0) w) y w")
        case (Inl e)
        then show ?thesis
          unfolding learn_from_instance_unfold by (simp add: cr cr' lr)
      next
        case st: (Inr st)
        show ?thesis
        proof (cases "py_int w")
          case (Inl e)
          then show ?thesis
            unfolding learn_from_instance_unfold by (simp add: cr cr' lr st)
        next
          case k: (Inr k)
          have in0: "is_inactive (node_class (self0\<lparr>stats := st\<rparr>))"
            using assms cls0 by simp
          have "repeat_steps (nat k) (?step lr) (s0, self0\<lparr>node_class := ?a, stats := st\<rparr>) =
                map_sum id (\<lambda>(s', n'). (s', n'\<lparr>node_class := ?a\<rparr>))
                  (repeat_steps (nat k) (?step lr) (s0, self0\<lparr>stats := st\<rparr>))"
            using steps_activate [OF in0, of "nat k" X y lr rht s0] cls0
            by (simp add: node_class_stats_comm)
          then show ?thesis
            unfolding learn_from_instance_unfold
            by (simp add: cr cr' lr st k predictor_state_finish predictor_state_class)
        qed
      qed
    qed
  qed
next
  show "\<forall>s' self'. learn_from_instance s self X y w rht = Inr (s', self') \<longrightarrow>
             attribute_observers self' = attribute_observers self"
  proof (intro allI impI)
    fix s' self'
    assume "learn_from_instance s self X y w rht = Inr (s', self')"
    from learn_from_instance_Inr [OF this] obtain s0 self0 lr k self3 where
      h: "create_weights s self X y = Inr (s0, self0)"
         "repeat_steps (nat k) (\<lambda>(s', self'). update_weights s' self' X y lr rht)
           (s0, self0\<lparr>stats := stats self'\<rparr>) = Inr (s', self3)"
         "finish_learning (node_class self) rht X y w (s', self3) = Inr (s', self')"
      by blast
    from h(1) have "attribute_observers self0 = attribute_observers self"
      using create_weights_frame by simp
    moreover from steps_frame [OF h(2)] have "attribute_observers self3 = attribute_observers self0"
      by simp
    moreover from h(3) assms have "self' = self3"
      by (auto simp: finish_learning_def is_inactive_def)
    ultimately show "attribute_observers self' = attribute_observers self" by simp
  qed
qed

theorem inactive_learns_like_active_witness:
  "predictor_state (learn_from_instance
        (single_store \<lparr>mat_cols = 2, mat_rows = [[Fin (1 / 2), Fin (1 / 2)]]\<rparr>)
        (node_at InactivePerceptronMT (Some 0)) [Fin 2] [Fin 3] (Fin 1) example_rht)
   = predictor_state (learn_from_instance
        (single_store \<lparr>mat_cols = 2, mat_rows = [[Fin (1 / 2), Fin (1 / 2)]]\<rparr>)
        (node_at ActivePerceptronMT (Some 0)) [Fin 2] [Fin 3] (Fin 1) example_rht)
   \<and> weights_of (learn_from_instance
        (single_store \<lparr>mat_cols = 2, mat_rows = [[Fin (1 / 2), Fin (1 / 2)]]\<rparr>)
        (node_at InactivePerceptronMT (Some 0)) [Fin 2] [Fin 3] (Fin 1) example_rht)
     = Inr [[Fin (16 / 29), Fin (13 / 29)]]
   \<and> map_sum id (\<lambda>(s', self'). map_option obs_kind (attribute_observers self' 0))
       (learn_from_instance
        (single_store \<lparr>mat_cols = 2, mat_rows = [[Fin (1 / 2), Fin (1 / 2)]]\<rparr>)
        (node_at InactivePerceptronMT (Some 0)) [Fin 2] [Fin 3] (Fin 1) example_rht)
     = Inr None
   \<and> map_sum id (\<lambda>(s', self'). map_option obs_kind (attribute_observers self' 0))
       (learn_from_instance
        (single_store \<lparr>mat_cols = 2, mat_rows = [[Fin (1 / 2), Fin (1 / 2)]]\<rparr>)
        (node_at ActivePerceptronMT (Some 0)) [Fin 2] [Fin 3] (Fin 1) example_rht)
     = Inr (Some NumericAttributeRegressionObserver)"
proof -
  let ?s = "single_store \<lparr>mat_cols = 2, mat_rows = [[Fin (1 / 2), Fin (1 / 2)]]\<rparr>"
  let ?n = "node_at InactivePerceptronMT (Some 0)"
  have i: "is_inactive (node_class ?n)"
    by (simp add: node_at_def base_init_def is_inactive_def)
  have a: "?n\<lparr>node_class := activate (node_class ?n)\<rparr> = node_at ActivePerceptronMT (Some 0)"
    by (simp add: node_at_def base_init_def activate_def)
  note sim = inactive_learns_like_active [OF i, of ?s "[Fin 2]" "[Fin 3]" "Fin 1" example_rht,
      unfolded a, THEN conjunct1]
  have evals: "weights_of (learn_from_instance ?s ?n [Fin 2] [Fin 3] (Fin 1) example_rht)
       = Inr [[Fin (16 / 29), Fin (13 / 29)]]"
    "map_sum id (\<lambda>(s', self'). map_option obs_kind (attribute_observers self' 0))
       (learn_from_instance ?s ?n [Fin 2] [Fin 3] (Fin 1) example_rht) = Inr None"
    "map_sum id (\<lambda>(s', self'). map_option obs_kind (attribute_observers self' 0))
       (learn_from_instance ?s (node_at ActivePerceptronMT (Some 0)) [Fin 2] [Fin 3] (Fin 1)
          example_rht) = Inr (Some NumericAttributeRegressionObserver)"
    by (simp_all add: weights_of_def learn_from_instance_unfold py_int_def
        active_create_weights_def learning_ratio_def add_weight_def add_targets_def
        finish_learning_def update_weights_def active_update_weights_def active_predict_def
        np_matmul_def np_dot_def np_binop_def fsub_def iadd_weights_def np_iadd2_def scale_def
        np_outer_def bcast_to_def active_normalize_Some divide_row_def np_abs_def
        example_rht_def node_at_def base_init_def single_store_def empty_stats_def Let_def
        new_observer_def observer_update_def)
  from sim evals show ?thesis by simp
qed

section \<open>The faded error of the perceptron\<close>

text \<open>
  C5, as the code has it. In the adaptive classes the faded error of the perceptron starts
  as 0 and is updated inside \<^verbatim>\<open>update_weights\<close>, hence once for each gradient step: for
  each target, to 0.95 times its value plus the absolute difference between the
  normalized target and the prediction made before the step. A call of
  \<^verbatim>\<open>learn_from_instance\<close> for an instance of weight \<open>r \<ge> 0\<close> makes \<open>\<lfloor>r\<rfloor>\<close> predictions and
  applies this update \<open>\<lfloor>r\<rfloor>\<close> times, once with each of them in turn. Over a run of
  instances of weight one on each of which the prediction is exactly the normalized
  target, every call returns and the faded error of each target ends as 0.95 to the power
  of the number of instances, times its value before the run.
\<close>

theorem faded_error_decay_law:
  assumes "is_adaptive (node_class self)"
  shows "(\<forall>s' self'. update_weights s self X y lr rht = Inr (s', self') \<longrightarrow>
            (\<exists>p e. predict s self (normalize_sample rht X) = Inr p
               \<and> np_binop fsub (normalize_target_value rht y) p = Inr e
               \<and> fade (fMAE_P self) (np_abs e) = Inr (fMAE_P self')))
       \<and> (\<forall>s' self' p. update_weights s self X y lr rht = Inr (s', self')
              \<and> predict s self (normalize_sample rht X) = Inr p
              \<and> length p = length (normalize_target_value rht y)
              \<and> faded_for (length p) (fMAE_P self) \<longrightarrow>
            (\<forall>i<length p. faded_at (fMAE_P self') i =
               fadd (fmul (Fin 0.95) (faded_at (fMAE_P self) i))
                 (fabs (fsub (normalize_target_value rht y ! i) (p ! i)))))
       \<and> (\<forall>r s' self'. 0 \<le> r
              \<and> learn_from_instance s self X y (Fin r) rht = Inr (s', self')
              \<and> faded_for k (fMAE_P self)
              \<and> length (normalize_target_value rht y) = k
              \<and> list_all (\<lambda>p. length p = k) (call_predictions s self X y (Fin r) rht) \<longrightarrow>
            length (call_predictions s self X y (Fin r) rht) = nat \<lfloor>r\<rfloor>
            \<and> (\<forall>i<k. faded_at (fMAE_P self') i =
                  foldl (\<lambda>f p. fadd (fmul (Fin 0.95) f)
                                  (fabs (fsub (normalize_target_value rht y ! i) (p ! i))))
                    (faded_at (fMAE_P self) i) (call_predictions s self X y (Fin r) rht)))
       \<and> (exact_run k s self obs \<and> faded_for k (fMAE_P self) \<longrightarrow>
            (\<exists>s' self'. learn_all s self obs = Inr (s', self')
               \<and> (\<forall>i<k. faded_at (fMAE_P self') i
                           = fmul (Fin (0.95 ^ length obs)) (faded_at (fMAE_P self) i))))
       \<and> (\<forall>s0 st parent g s' self'.
            construct (node_class self) s0 st parent g = Inr (s', self') \<longrightarrow>
            fMAE_P self' = PyFloat (Fin 0))"
proof -
  have c1: "\<forall>s' self'. update_weights s self X y lr rht = Inr (s', self') \<longrightarrow>
            (\<exists>p e. predict s self (normalize_sample rht X) = Inr p
               \<and> np_binop fsub (normalize_target_value rht y) p = Inr e
               \<and> fade (fMAE_P self) (np_abs e) = Inr (fMAE_P self'))"
  proof (intro allI impI)
    fix s' self'
    assume "update_weights s self X y lr rht = Inr (s', self')"
    from adaptive_update_fade [OF assms this]
    show "\<exists>p e. predict s self (normalize_sample rht X) = Inr p
               \<and> np_binop fsub (normalize_target_value rht y) p = Inr e
               \<and> fade (fMAE_P self) (np_abs e) = Inr (fMAE_P self')"
      by blast
  qed
  have c2: "\<forall>s' self' p. update_weights s self X y lr rht = Inr (s', self')
              \<and> predict s self (normalize_sample rht X) = Inr p
              \<and> length p = length (normalize_target_value rht y)
              \<and> faded_for (length p) (fMAE_P self) \<longrightarrow>
            (\<forall>i<length p. faded_at (fMAE_P self') i =
               fadd (fmul (Fin 0.95) (faded_at (fMAE_P self) i))
                 (fabs (fsub (normalize_target_value rht y ! i) (p ! i))))"
  proof (intro allI impI)
    fix s' self' p i
    assume a: "update_weights s self X y lr rht = Inr (s', self')
              \<and> predict s self (normalize_sample rht X) = Inr p
              \<and> length p = length (normalize_target_value rht y)
              \<and> faded_for (length p) (fMAE_P self)"
      and i: "i < length p"
    from a adaptive_update_fade [OF assms, of s X y lr rht s' self'] obtain e where
      e: "np_binop fsub (normalize_target_value rht y) p = Inr e"
         "fade (fMAE_P self) (np_abs e) = Inr (fMAE_P self')"
      by auto
    from a have ff: "faded_for (length p) (fMAE_P self)"
      by blast
    from a have lt: "length (normalize_target_value rht y) = length p"
      by (elim conjE) (rule sym, assumption)
    from fade_explicit [OF ff lt refl e] i
    show "faded_at (fMAE_P self') i =
               fadd (fmul (Fin 0.95) (faded_at (fMAE_P self) i))
                 (fabs (fsub (normalize_target_value rht y ! i) (p ! i)))"
      by simp
  qed
  have c3: "\<forall>r s' self'. 0 \<le> r
              \<and> learn_from_instance s self X y (Fin r) rht = Inr (s', self')
              \<and> faded_for k (fMAE_P self)
              \<and> length (normalize_target_value rht y) = k
              \<and> list_all (\<lambda>p. length p = k) (call_predictions s self X y (Fin r) rht) \<longrightarrow>
            length (call_predictions s self X y (Fin r) rht) = nat \<lfloor>r\<rfloor>
            \<and> (\<forall>i<k. faded_at (fMAE_P self') i =
                  foldl (\<lambda>f p. fadd (fmul (Fin 0.95) f)
                                  (fabs (fsub (normalize_target_value rht y ! i) (p ! i))))
                    (faded_at (fMAE_P self) i) (call_predictions s self X y (Fin r) rht))"
  proof (intro allI impI)
    fix r s' self'
    assume a: "0 \<le> r
              \<and> learn_from_instance s self X y (Fin r) rht = Inr (s', self')
              \<and> faded_for k (fMAE_P self)
              \<and> length (normalize_target_value rht y) = k
              \<and> list_all (\<lambda>p. length p = k) (call_predictions s self X y (Fin r) rht)"
    then have run: "learn_from_instance s self X y (Fin r) rht = Inr (s', self')" by simp
    from call_predictions_steps [OF run] obtain s0 self0 lr' j self3 where
      h: "create_weights s self X y = Inr (s0, self0)"
         "py_int (Fin r) = Inr j"
         "repeat_steps (nat j) (\<lambda>(s', self'). update_weights s' self' X y lr' rht)
           (s0, self0\<lparr>stats := stats self'\<rparr>) = Inr (s', self3)"
         "fMAE_P self3 = fMAE_P self'"
         "call_predictions s self X y (Fin r) rht =
            step_predictions (nat j) s0 (self0\<lparr>stats := stats self'\<rparr>) X y lr' rht"
      by blast
    from h(2) a have j: "j = \<lfloor>r\<rfloor>" by (simp add: py_int_def)
    from h(1) have fr: "node_class self0 = node_class self" "fMAE_P self0 = fMAE_P self"
      using create_weights_frame by simp_all
    let ?n = "self0\<lparr>stats := stats self'\<rparr>"
    have ad: "is_adaptive (node_class ?n)" using assms fr(1) by simp
    have ff: "faded_for k (fMAE_P ?n)" using a fr(2) by simp
    have len: "length (normalize_target_value rht y) = k" using a by simp
    have all: "list_all (\<lambda>p. length p = k) (step_predictions (nat j) s0 ?n X y lr' rht)"
      using a h(5) by simp
    from steps_faded [OF ad ff len h(3) all] h(4,5) j fr(2)
    show "length (call_predictions s self X y (Fin r) rht) = nat \<lfloor>r\<rfloor>
            \<and> (\<forall>i<k. faded_at (fMAE_P self') i =
                  foldl (\<lambda>f p. fadd (fmul (Fin 0.95) f)
                                  (fabs (fsub (normalize_target_value rht y ! i) (p ! i))))
                    (faded_at (fMAE_P self) i) (call_predictions s self X y (Fin r) rht))"
      by simp
  qed
  have c4: "exact_run k s self obs \<and> faded_for k (fMAE_P self) \<longrightarrow>
            (\<exists>s' self'. learn_all s self obs = Inr (s', self')
               \<and> (\<forall>i<k. faded_at (fMAE_P self') i
                           = fmul (Fin (0.95 ^ length obs)) (faded_at (fMAE_P self) i)))"
    using exact_run_decay [OF assms, of k s obs] by simp
  have c5: "\<forall>s0 st parent g s' self'.
            construct (node_class self) s0 st parent g = Inr (s', self') \<longrightarrow>
            fMAE_P self' = PyFloat (Fin 0)"
  proof (intro allI impI)
    fix s0 st parent g s' self'
    assume "construct (node_class self) s0 st parent g = Inr (s', self')"
    with assms show "fMAE_P self' = PyFloat (Fin 0)"
      by (cases "node_class self")
        (auto simp: is_adaptive_def construct_def active_adaptive_init_def
          inactive_adaptive_init_def bnd_eq_Inr)
  qed
  from c1 c2 c3 c4 c5 show ?thesis
    by (intro conjI)
qed

theorem faded_error_decay_law_witness:
  "map_sum id (\<lambda>(s', self'). faded_at (fMAE_P self') 0)
     (learn_all unit_store (unit_node\<lparr>fMAE_P := NdArray [Fin 1]\<rparr>)
        [([], [Fin 1], Fin 1, example_rht), ([], [Fin 1], Fin 1, example_rht)])
   = Inr (Fin (361 / 400))
   \<and> call_predictions unit_store unit_node [] [Fin 3] (Fin 2) example_rht = [[Fin 1], [Fin 1]]
   \<and> map_sum id (\<lambda>(s', self'). faded_at (fMAE_P self') 0)
        (learn_from_instance unit_store unit_node [] [Fin 3] (Fin 2) example_rht)
      = Inr (Fin (39 / 10))"
proof -
  let ?n = "unit_node\<lparr>fMAE_P := NdArray [Fin 1]\<rparr>"
  let ?obs = "[([], [Fin 1], Fin 1, example_rht), ([], [Fin 1], Fin 1, example_rht)]
                :: observation list"
  have ad: "is_adaptive (node_class ?n)"
    by (simp add: unit_node_def node_at_def base_init_def is_adaptive_def)
  have ff: "faded_for 1 (fMAE_P ?n)"
    by (simp add: faded_for_def)
  have ex: "exact_run 1 unit_store ?n ?obs"
    by (simp add: is_fin_def learn_from_instance_unfold py_int_def
        active_create_weights_def learning_ratio_def add_weight_def add_targets_def
        finish_learning_def update_weights_def active_adaptive_update_weights_def
        active_predict_def stats_mean_def fade_def
        np_matmul_def np_dot_def np_binop_def fsub_def iadd_weights_def np_iadd2_def scale_def
        np_outer_def bcast_to_def active_normalize_Some divide_row_def np_abs_def
        example_rht_def node_at_def base_init_def single_store_def empty_stats_def Let_def
        new_observer_def observer_update_def unit_store_def unit_node_def np_iadd_def)
  note law = faded_error_decay_law [OF ad, THEN conjunct2, THEN conjunct2, THEN conjunct2,
      THEN conjunct1, THEN mp, OF conjI [OF ex ff]]
  then obtain s' self' where run: "learn_all unit_store ?n ?obs = Inr (s', self')"
    and dec: "\<forall>i<1. faded_at (fMAE_P self') i
               = fmul (Fin (0.95 ^ length ?obs)) (faded_at (fMAE_P ?n) i)"
    by blast
  from dec have "faded_at (fMAE_P self') 0
               = fmul (Fin (0.95 ^ length ?obs)) (faded_at (fMAE_P ?n) 0)"
    by (elim allE [of _ 0] impE) simp_all
  then have "faded_at (fMAE_P self') 0 = Fin (361 / 400)"
    by (simp add: faded_at_def)
  with run have first: "map_sum id (\<lambda>(s', self'). faded_at (fMAE_P self') 0)
     (learn_all unit_store ?n ?obs) = Inr (Fin (361 / 400))"
    by simp
  have ad0: "is_adaptive (node_class unit_node)"
    by (simp add: unit_node_def node_at_def base_init_def is_adaptive_def)
  have ff0: "faded_for 1 (fMAE_P unit_node)"
    by (simp add: unit_node_def node_at_def base_init_def faded_for_def)
  have f0: "faded_at (fMAE_P unit_node) 0 = Fin 0"
    by (simp add: unit_node_def node_at_def base_init_def faded_at_def)
  have preds: "call_predictions unit_store unit_node [] [Fin 3] (Fin 2) example_rht
                 = [[Fin 1], [Fin 1]]"
    by (simp add: call_predictions_def step_predictions_numeral py_int_def
        active_create_weights_def learning_ratio_def add_weight_def add_targets_def
        finish_learning_def update_weights_def active_adaptive_update_weights_def
        active_predict_def stats_mean_def fade_def
        np_matmul_def np_dot_def np_binop_def fsub_def iadd_weights_def np_iadd2_def scale_def
        np_outer_def bcast_to_def active_normalize_Some divide_row_def np_abs_def
        example_rht_def node_at_def base_init_def single_store_def empty_stats_def Let_def
        new_observer_def observer_update_def unit_store_def unit_node_def np_iadd_def)
  have "\<exists>s2 self2. learn_from_instance unit_store unit_node [] [Fin 3] (Fin 2) example_rht
                      = Inr (s2, self2)"
    by (simp add: repeat_steps_numeral learn_from_instance_unfold py_int_def
        active_create_weights_def learning_ratio_def add_weight_def add_targets_def
        finish_learning_def update_weights_def active_adaptive_update_weights_def
        active_predict_def stats_mean_def fade_def
        np_matmul_def np_dot_def np_binop_def fsub_def iadd_weights_def np_iadd2_def scale_def
        np_outer_def bcast_to_def active_normalize_Some divide_row_def np_abs_def
        example_rht_def node_at_def base_init_def single_store_def empty_stats_def Let_def
        new_observer_def observer_update_def unit_store_def unit_node_def np_iadd_def)
  then obtain s2 self2 where
    run2: "learn_from_instance unit_store unit_node [] [Fin 3] (Fin 2) example_rht = Inr (s2, self2)"
    by blast
  have len: "length (normalize_target_value example_rht [Fin 3]) = 1"
    by (simp add: example_rht_def)
  have all: "list_all (\<lambda>p. length p = 1)
               (call_predictions unit_store unit_node [] [Fin 3] (Fin 2) example_rht)"
    unfolding preds by simp
  have r: "(0::real) \<le> 2" by simp
  from faded_error_decay_law [OF ad0, THEN conjunct2, THEN conjunct2, THEN conjunct1,
      rule_format, OF conjI [OF r conjI [OF run2 conjI [OF ff0 conjI [OF len all]]]]]
  have "\<forall>i<1. faded_at (fMAE_P self2) i =
          foldl (\<lambda>f p. fadd (fmul (Fin 0.95) f)
                          (fabs (fsub (normalize_target_value example_rht [Fin 3] ! i) (p ! i))))
            (faded_at (fMAE_P unit_node) i)
            (call_predictions unit_store unit_node [] [Fin 3] (Fin 2) example_rht)"
    by (rule conjunct2)
  then have "faded_at (fMAE_P self2) 0 =
          foldl (\<lambda>f p. fadd (fmul (Fin 0.95) f)
                          (fabs (fsub (normalize_target_value example_rht [Fin 3] ! 0) (p ! 0))))
            (faded_at (fMAE_P unit_node) 0)
            (call_predictions unit_store unit_node [] [Fin 3] (Fin 2) example_rht)"
    by (elim allE [of _ 0] impE) simp_all
  then have "faded_at (fMAE_P self2) 0 = Fin (39 / 10)"
    unfolding preds f0 by (simp add: example_rht_def fsub_def)
  with run2 first preds show ?thesis by simp
qed

text \<open>
  C5, as the claim states it, fails: the faded error is not updated once per instance.
  The prediction of the node is 1. On an instance of weight 1/2 with target 3 the call
  takes no gradient step and leaves the faded error at 0, where one update would give 2.
  On an instance of weight 2 with target 1 the call updates it twice, from 1 to 361/400,
  where one update would give 19/20.
\<close>

theorem faded_error_not_once_per_instance:
  "predict unit_store unit_node (normalize_sample example_rht []) = Inr [Fin 1]
   \<and> fMAE_P_after (learn_from_instance unit_store unit_node [] [Fin 3] (Fin (1 / 2)) example_rht)
       = Inr (PyFloat (Fin 0))
   \<and> fade (fMAE_P unit_node) (np_abs [fsub (Fin 3) (Fin 1)]) = Inr (NdArray [Fin 2])
   \<and> fMAE_P_after (learn_from_instance unit_store (unit_node\<lparr>fMAE_P := NdArray [Fin 1]\<rparr>)
         [] [Fin 1] (Fin 2) example_rht)
       = Inr (NdArray [Fin (361 / 400)])
   \<and> fade (NdArray [Fin 1]) (np_abs [fsub (Fin 1) (Fin 1)]) = Inr (NdArray [Fin (19 / 20)])"
  by (simp add: fMAE_P_after_def repeat_steps_numeral learn_from_instance_unfold py_int_def
        active_create_weights_def learning_ratio_def add_weight_def add_targets_def
        finish_learning_def update_weights_def active_adaptive_update_weights_def
        active_predict_def stats_mean_def fade_def
        np_matmul_def np_dot_def np_binop_def fsub_def iadd_weights_def np_iadd2_def scale_def
        np_outer_def bcast_to_def active_normalize_Some divide_row_def np_abs_def
        example_rht_def node_at_def base_init_def single_store_def empty_stats_def Let_def
        new_observer_def observer_update_def unit_store_def unit_node_def np_iadd_def)

section \<open>Weights inherited from a parent\<close>

text \<open>
  C7 does not hold of the code. The constructors of the active classes copy the matrix
  they read from the parent; those of the inactive classes keep the reference to the very
  matrix of the parent. Here the parent holds the matrix at address 0. A child of an
  inactive class holds address 0 too, and its learning from one instance changes the
  matrix of the parent; a child of an active class holds a copy at address 1, and the
  matrix of the parent stays as it was.
\<close>

theorem inactive_child_shares_parent_weights:
  "child_learns InactivePerceptronMT
      (single_store \<lparr>mat_cols = 2, mat_rows = [[Fin (1 / 2), Fin (1 / 2)]]\<rparr>)
      (parent_with_weights 0) [Fin 2] [Fin 3] (Fin 1) example_rht 0
     = Inr ([[Fin (16 / 29), Fin (13 / 29)]], Some 0)
   \<and> child_learns InactiveAdaptiveMT
      (single_store \<lparr>mat_cols = 2, mat_rows = [[Fin (1 / 2), Fin (1 / 2)]]\<rparr>)
      (parent_with_weights 0) [Fin 2] [Fin 3] (Fin 1) example_rht 0
     = Inr ([[Fin (16 / 29), Fin (13 / 29)]], Some 0)
   \<and> child_learns ActivePerceptronMT
      (single_store \<lparr>mat_cols = 2, mat_rows = [[Fin (1 / 2), Fin (1 / 2)]]\<rparr>)
      (parent_with_weights 0) [Fin 2] [Fin 3] (Fin 1) example_rht 0
     = Inr ([[Fin (1 / 2), Fin (1 / 2)]], Some 1)
   \<and> child_learns ActiveAdaptiveMT
      (single_store \<lparr>mat_cols = 2, mat_rows = [[Fin (1 / 2), Fin (1 / 2)]]\<rparr>)
      (parent_with_weights 0) [Fin 2] [Fin 3] (Fin 1) example_rht 0
     = Inr ([[Fin (1 / 2), Fin (1 / 2)]], Some 1)"
  by (simp add: child_learns_def parent_with_weights_def construct_def active_init_def
      inactive_init_def active_adaptive_init_def inactive_adaptive_init_def getattr_def
      deepcopy_def alloc_def
      learn_from_instance_unfold py_int_def
      active_create_weights_def learning_ratio_def add_weight_def add_targets_def
      finish_learning_def update_weights_def active_update_weights_def
      active_adaptive_update_weights_def
      active_predict_def stats_mean_def fade_def
      np_matmul_def np_dot_def np_binop_def fsub_def iadd_weights_def np_iadd2_def scale_def
      np_outer_def bcast_to_def active_normalize_Some divide_row_def np_abs_def
      example_rht_def base_init_def single_store_def empty_stats_def Let_def
      new_observer_def observer_update_def np_iadd_def)

end
